theory Spec2Isabelle
  imports Complex_Main "HOL-Library.Char_ord" "HOL-Library.List_Lexorder"
    "HOL-Library.Product_Lexorder" "HOL-Library.Log_Nat"
begin

section \<open>Values of the survey table\<close>

text \<open>
  The program \<^verbatim>\<open>prepare_dashboard_data.py\<close> reads a spreadsheet into a pandas table and
  works on its cells. A cell, or the result of \<^verbatim>\<open>row.get\<close>, is one of:
  \<^item> \<open>PNone\<close>: Python's \<^verbatim>\<open>None\<close>, what \<^verbatim>\<open>row.get(col)\<close> returns for a column the table
    does not have;
  \<^item> \<open>NaN\<close>: the empty cell of a column the table has;
  \<^item> \<open>Str s\<close>: a text cell (any other non-numeric object, such as a timestamp, behaves
    like its text at every place this program uses it);
  \<^item> \<open>Num r t\<close>: a numeric cell of value \<open>r\<close>, together with the text \<open>t\<close> that \<^verbatim>\<open>str\<close>
    gives for it. The rendering of a number is carried with the cell rather than
    computed, so every statement below holds whatever the rendering is. A boolean cell
    is the number 1 or 0 with the text \<^verbatim>\<open>True\<close> or \<^verbatim>\<open>False\<close>.
  A number is given by its exact value, a rational. Characters are the 8-bit characters
  of HOL.
\<close>

datatype pyval = PNone | NaN | Str string | Num rat string

text \<open>\<^verbatim>\<open>pd.notna(v)\<close>\<close>

fun notna :: "pyval \<Rightarrow> bool" where
  "notna PNone = False"
| "notna NaN = False"
| "notna (Str s) = True"
| "notna (Num r t) = True"

text \<open>\<^verbatim>\<open>str(v)\<close>\<close>

fun py_str :: "pyval \<Rightarrow> string" where
  "py_str PNone = ''None''"
| "py_str NaN = ''nan''"
| "py_str (Str s) = s"
| "py_str (Num r t) = t"

text \<open>
  \<^verbatim>\<open>a == b\<close> on the values used as dictionary and group keys: numbers compare by value,
  texts by content, and an empty cell equals nothing.
\<close>

fun py_eq :: "pyval \<Rightarrow> pyval \<Rightarrow> bool" where
  "py_eq (Str a) (Str b) = (a = b)"
| "py_eq (Num a s) (Num b t) = (a = b)"
| "py_eq PNone PNone = True"
| "py_eq a b = False"

section \<open>The identifier normalizer\<close>

definition is_digit :: "char \<Rightarrow> bool" where
  "is_digit c = (c \<in> set ''0123456789'')"

text \<open>\<^verbatim>\<open>re.sub(r'[^0-9]', '', s)\<close>: every character outside \<^verbatim>\<open>0-9\<close> is replaced by nothing.\<close>

primrec re_sub_non_digits :: "string \<Rightarrow> string" where
  "re_sub_non_digits [] = []"
| "re_sub_non_digits (c # cs) =
     (if is_digit c then c # re_sub_non_digits cs else re_sub_non_digits cs)"

text \<open>
  \<^verbatim>\<open>
  def standardize_cnic(cnic_str):
      if pd.notna(cnic_str):
          return re.sub(r'[^0-9]', '', str(cnic_str))
      return ''
  \<close>
\<close>

definition standardize_cnic :: "pyval \<Rightarrow> string" where
  "standardize_cnic cnic_str =
     (if notna cnic_str then re_sub_non_digits (py_str cnic_str) else [])"

text \<open>
  Two strings differ only in non-digit characters when, after skipping the non-digit
  characters of both, they agree character by character.
\<close>

fun differ_only_in_non_digits :: "string \<Rightarrow> string \<Rightarrow> bool" where
  "differ_only_in_non_digits [] [] = True"
| "differ_only_in_non_digits (a # s) [] = (\<not> is_digit a \<and> differ_only_in_non_digits s [])"
| "differ_only_in_non_digits [] (b # t) = (\<not> is_digit b \<and> differ_only_in_non_digits [] t)"
| "differ_only_in_non_digits (a # s) (b # t) =
     (if \<not> is_digit a then differ_only_in_non_digits s (b # t)
      else if \<not> is_digit b then differ_only_in_non_digits (a # s) t
      else a = b \<and> differ_only_in_non_digits s t)"

section \<open>Strings\<close>

text \<open>\<^verbatim>\<open>s.split(' ')\<close>: the pieces between single spaces; two spaces in a row give an empty piece.\<close>

fun split_space :: "string \<Rightarrow> string list" where
  "split_space [] = [[]]"
| "split_space (c # cs) =
     (if c = CHR '' '' then [] # split_space cs
      else (case split_space cs of [] \<Rightarrow> [[c]] | w # ws \<Rightarrow> (c # w) # ws))"

text \<open>The characters \<^verbatim>\<open>str.isspace\<close> accepts, among the first 256 code points.\<close>

definition is_space :: "char \<Rightarrow> bool" where
  "is_space c = (of_char c \<in> set [9, 10, 11, 12, 13, 28, 29, 30, 31, 32, 133, 160 :: nat])"

text \<open>\<^verbatim>\<open>s.strip()\<close>\<close>

definition py_strip :: "string \<Rightarrow> string" where
  "py_strip s = rev (dropWhile is_space (rev (dropWhile is_space s)))"

section \<open>The table and the attendance index\<close>

text \<open>
  A pandas table has a list of columns, and every row has a cell in each of them. A row
  handed out by \<^verbatim>\<open>iterrows\<close> is a series: the columns and the cells. \<^verbatim>\<open>row.get(k, d)\<close>
  is the cell when the table has column \<open>k\<close>, and \<open>d\<close> (\<^verbatim>\<open>None\<close> when not given) otherwise.
\<close>

record dataframe =
  columns :: "string list"
  cells :: "(string \<Rightarrow> pyval) list"

type_synonym series = "string list \<times> (string \<Rightarrow> pyval)"

definition iterrows :: "dataframe \<Rightarrow> series list" where
  "iterrows df = map (\<lambda>r. (columns df, r)) (cells df)"

fun row_get :: "series \<Rightarrow> string \<Rightarrow> pyval \<Rightarrow> pyval" where
  "row_get (cols, r) k d = (if k \<in> set cols then r k else d)"

text \<open>\<^verbatim>\<open>df[df['main_menu'] == menu]\<close>, for a table that has the column \<^verbatim>\<open>main_menu\<close>.\<close>

definition select_menu :: "string \<Rightarrow> dataframe \<Rightarrow> dataframe" where
  "select_menu menu df = df\<lparr>cells := filter (\<lambda>r. r ''main_menu'' = Str menu) (cells df)\<rparr>"

text \<open>
  A Python dictionary whose keys are cell values: \<^verbatim>\<open>d[k] = v\<close> replaces the entry of every
  key equal to \<open>k\<close>.
\<close>

type_synonym 'v pydict = "pyval \<Rightarrow> 'v option"

definition dict_set :: "'v pydict \<Rightarrow> pyval \<Rightarrow> 'v \<Rightarrow> 'v pydict" where
  "dict_set d k v = (\<lambda>k'. if py_eq k' k then Some v else d k')"

definition dict_get :: "'v pydict \<Rightarrow> pyval \<Rightarrow> 'v \<Rightarrow> 'v" where
  "dict_get d k dflt = (case d k of None \<Rightarrow> dflt | Some v \<Rightarrow> v)"

text \<open>
  \<^verbatim>\<open>
  {standardize_cnic(c) for c in str(beneficiaries_present).split(' ') if c.strip()}
  \<close>
\<close>

definition cnic_list :: "pyval \<Rightarrow> string set" where
  "cnic_list beneficiaries_present =
     set (map (\<lambda>c. standardize_cnic (Str c))
       (filter (\<lambda>c. py_strip c \<noteq> []) (split_space (py_str beneficiaries_present))))"

text \<open>
  \<^verbatim>\<open>
  for _, row in df_day2.iterrows():
      day2_session_id = row.get('day2_session_select')
      beneficiaries_present = row.get('beneficiaries_present')
      if pd.notna(day2_session_id) and pd.notna(beneficiaries_present):
          cnic_list = {...}
          day2_attendance[day2_session_id] = cnic_list
  \<close>
\<close>

definition attendance_step :: "string set pydict \<Rightarrow> series \<Rightarrow> string set pydict" where
  "attendance_step day2_attendance row =
     (let day2_session_id = row_get row ''day2_session_select'' PNone;
          beneficiaries_present = row_get row ''beneficiaries_present'' PNone
      in if notna day2_session_id \<and> notna beneficiaries_present
         then dict_set day2_attendance day2_session_id (cnic_list beneficiaries_present)
         else day2_attendance)"

definition build_attendance :: "series list \<Rightarrow> string set pydict" where
  "build_attendance day2_rows = foldl attendance_step (\<lambda>k. None) day2_rows"

section \<open>Reshaping registration rows\<close>

text \<open>The decimal text of a natural number, as an f-string writes it.\<close>

function str_nat :: "nat \<Rightarrow> string" where
  "str_nat n = (if n < 10 then [''0123456789'' ! n]
                else str_nat (n div 10) @ [''0123456789'' ! (n mod 10)])"
  by pat_completeness auto
termination
  by (relation "measure (\<lambda>n. n)") auto

declare str_nat.simps [simp del]

text \<open>
  A record of the long-format table is a Python dictionary from field names to values.
  \<^verbatim>\<open>d.get(k, dflt)\<close> on it:
\<close>

type_synonym beneficiary = "string \<rightharpoonup> pyval"

definition field_get :: "beneficiary \<Rightarrow> string \<Rightarrow> pyval \<Rightarrow> pyval" where
  "field_get d k dflt = (case d k of None \<Rightarrow> dflt | Some v \<Rightarrow> v)"

text \<open>
  \<^verbatim>\<open>
  session_data = {
      'SubmissionDate': row.get('SubmissionDate'), 'start': row.get('start'),
      'end': row.get('end'), 'province_select': row.get('province_select'),
      'district_select': row.get('district_select'),
      'lead_trainer_name': row.get('lead_trainer_name'),
      'session_id': row.get('session_id'),
      'training_location': row.get('training_location'),
      'q_read_write': row.get('q_read_write', 0),
      'q_recognize_currency': row.get('q_recognize_currency', 0),
      'q_simple_math': row.get('q_simple_math', 0),
      'q_handbooks_distributed': row.get('q_handbooks_distributed', 0) }
  \<close>
\<close>

definition session_data :: "series \<Rightarrow> beneficiary" where
  "session_data row =
     [''SubmissionDate'' \<mapsto> row_get row ''SubmissionDate'' PNone,
      ''start'' \<mapsto> row_get row ''start'' PNone,
      ''end'' \<mapsto> row_get row ''end'' PNone,
      ''province_select'' \<mapsto> row_get row ''province_select'' PNone,
      ''district_select'' \<mapsto> row_get row ''district_select'' PNone,
      ''lead_trainer_name'' \<mapsto> row_get row ''lead_trainer_name'' PNone,
      ''session_id'' \<mapsto> row_get row ''session_id'' PNone,
      ''training_location'' \<mapsto> row_get row ''training_location'' PNone,
      ''q_read_write'' \<mapsto> row_get row ''q_read_write'' (Num 0 ''0''),
      ''q_recognize_currency'' \<mapsto> row_get row ''q_recognize_currency'' (Num 0 ''0''),
      ''q_simple_math'' \<mapsto> row_get row ''q_simple_math'' (Num 0 ''0''),
      ''q_handbooks_distributed'' \<mapsto> row_get row ''q_handbooks_distributed'' (Num 0 ''0'')]"

definition beneficiary_specific_prefixes :: "string list" where
  "beneficiary_specific_prefixes =
     [''beneficiary_name'', ''beneficiary_cnic'', ''age'', ''occupation'']"

text \<open>
  The body of the slot loop for a slot that passes the test:
  \<^verbatim>\<open>
  beneficiary_data = session_data.copy()
  beneficiary_data['beneficiary_cnic'] = standardize_cnic(row.get(cnic_col))
  for prefix in beneficiary_specific_prefixes:
      source_col = f'{prefix}_{i}'
      beneficiary_data[prefix] = row.get(source_col)
  \<close>
\<close>

definition beneficiary_data :: "series \<Rightarrow> nat \<Rightarrow> beneficiary" where
  "beneficiary_data row i =
     (let cnic_col = ''beneficiary_cnic_'' @ str_nat i;
          d = (session_data row)
                (''beneficiary_cnic'' \<mapsto> Str (standardize_cnic (row_get row cnic_col PNone)))
      in foldl (\<lambda>d prefix. d(prefix \<mapsto> row_get row (prefix @ ''_'' @ str_nat i) PNone))
           d beneficiary_specific_prefixes)"

text \<open>
  \<^verbatim>\<open>
  for i in range(1, 36):
      cnic_col = f'beneficiary_cnic_{i}'
      if cnic_col in df_day1.columns and pd.notna(row.get(cnic_col)):
          ...
          long_format_list.append(beneficiary_data)
  \<close>
\<close>

definition slot_present :: "series \<Rightarrow> nat \<Rightarrow> bool" where
  "slot_present row i =
     (let cnic_col = ''beneficiary_cnic_'' @ str_nat i
      in cnic_col \<in> set (fst row) \<and> notna (row_get row cnic_col PNone))"

definition reshape_row :: "series \<Rightarrow> beneficiary list" where
  "reshape_row row =
     concat (map (\<lambda>i. if slot_present row i then [beneficiary_data row i] else []) [1..<36])"

definition long_format_list :: "dataframe \<Rightarrow> beneficiary list" where
  "long_format_list df_day1 = concat (map reshape_row (iterrows df_day1))"

section \<open>Numbers, rounding and errors\<close>

text \<open>The result of an arithmetic expression: a number, or the not-a-number of floats.\<close>

datatype 'a number = Nan | Val 'a

text \<open>The integer nearest to a rational, a tie going to the even one.\<close>

definition round_half_even :: "rat \<Rightarrow> int" where
  "round_half_even x =
     (let f = \<lfloor>x\<rfloor>; d = x - of_int f
      in if d < 1 / 2 then f else if 1 / 2 < d then f + 1 else if even f then f else f + 1)"

text \<open>
  Python and numpy floats are IEEE binary64 numbers, and every arithmetic operation on
  them returns the binary64 number nearest to the exact result, a tie going to the even
  significand. \<open>binary64 x\<close> is that number for the exact result \<open>x\<close>: with \<open>2\<^sup>e \<le> |x| < 2\<^sup>e\<^sup>+\<^sup>1\<close>
  it is the nearest multiple of \<open>2\<^sup>e\<^sup>-\<^sup>5\<^sup>2\<close>. Overflow and subnormal numbers are left out:
  the quotients and products of this program are far from both.
\<close>

definition binary64 :: "rat \<Rightarrow> rat" where
  "binary64 x =
     (if x = 0 then 0
      else let e0 = bitlen (fst (quotient_of \<bar>x\<bar>)) - bitlen (snd (quotient_of \<bar>x\<bar>));
               e = (if 2 powi e0 \<le> \<bar>x\<bar> then e0 else e0 - 1);
               ulp = 2 powi (e - 52)
           in sgn x * of_int (round_half_even (\<bar>x\<bar> / ulp)) * ulp)"

text \<open>
  \<^verbatim>\<open>round(x, ndigits)\<close> returns the float nearest to a decimal with \<open>ndigits\<close> places. The
  model gives that decimal, which is also what the float prints as: \<open>1 / 10\<close> stands for
  the float \<^verbatim>\<open>0.1\<close>.

  For a Python float \<open>x\<close> the decimal is the one nearest to the exact value of \<open>x\<close>, a tie
  going to the even digit.
\<close>

definition round_rat :: "rat \<Rightarrow> nat \<Rightarrow> rat" where
  "round_rat x ndigits = of_int (round_half_even (x * 10 ^ ndigits)) / 10 ^ ndigits"

fun py_round :: "rat number \<Rightarrow> nat \<Rightarrow> rat number" where
  "py_round Nan ndigits = Nan"
| "py_round (Val x) ndigits = Val (round_rat x ndigits)"

text \<open>
  For a numpy float \<open>x\<close>, \<^verbatim>\<open>round(x, decimals)\<close> is numpy's \<^verbatim>\<open>rint(x * 10**decimals) /
  10**decimals\<close>: the product is a float, and \<^verbatim>\<open>rint\<close> takes it to the nearest integer, a
  tie going to the even one.
\<close>

definition np_round_rat :: "rat \<Rightarrow> nat \<Rightarrow> rat" where
  "np_round_rat x decimals =
     of_int (round_half_even (binary64 (x * 10 ^ decimals))) / 10 ^ decimals"

fun np_round :: "rat number \<Rightarrow> nat \<Rightarrow> rat number" where
  "np_round Nan decimals = Nan"
| "np_round (Val x) decimals = Val (np_round_rat x decimals)"

datatype error =
  KeyError string | TypeError | ValueError | IndexError | AttributeError | ReadError

section \<open>The per-session metrics\<close>

text \<open>
  The library functions \<^verbatim>\<open>float\<close> and \<^verbatim>\<open>pd.to_datetime(_, format='%H:%M:%S').time()\<close> are
  parameters of the model: \<open>pf s\<close> is the float \<^verbatim>\<open>float(s)\<close> returns, of a type \<open>'f\<close> left
  open, and \<open>None\<close> where it raises \<^verbatim>\<open>ValueError\<close>; \<open>tt s\<close> is the time of day (hour,
  minute, second) the token parses to, and \<open>None\<close> where the parse raises \<^verbatim>\<open>ValueError\<close>.

  The arithmetic of pandas and numpy on the indicator values is a parameter as well,
  of the same float type \<open>'f\<close>. The types of the three scalars (numpy integers, floats or
  booleans, or Python objects) follow from the columns of the long-format table, so
  the table is an argument: \<open>mean_of_three np recs a b c\<close> is the float \<^verbatim>\<open>(a + b + c) / 3\<close>
  for three numbers none of which is not-a-number, as they come from a first row of
  the table \<open>recs\<close>, and \<open>round_two np x\<close> is the float \<^verbatim>\<open>round(x, 2)\<close>.
\<close>

record 'f arith =
  mean_of_three :: "beneficiary list \<Rightarrow> pyval \<Rightarrow> pyval \<Rightarrow> pyval \<Rightarrow> 'f"
  round_two :: "'f \<Rightarrow> 'f"

definition py_float :: "(string \<Rightarrow> 'f option) \<Rightarrow> string \<Rightarrow> error + 'f" where
  "py_float pf s = (case pf s of None \<Rightarrow> Inl ValueError | Some v \<Rightarrow> Inr v)"

text \<open>\<^verbatim>\<open>xs[i]\<close> for an index that is not negative.\<close>

definition py_index :: "'a list \<Rightarrow> nat \<Rightarrow> error + 'a" where
  "py_index xs i = (if i < length xs then Inr (xs ! i) else Inl IndexError)"

text \<open>
  The body of the \<^verbatim>\<open>try\<close> of the location:
  \<^verbatim>\<open>
  coords = location_str.split(' ')
  lat, lon = float(coords[0]), float(coords[1])
  \<close>
  The right-hand side is evaluated left to right, and nothing is assigned unless all of
  it has been evaluated.
\<close>

definition parse_coords :: "(string \<Rightarrow> 'f option) \<Rightarrow> string \<Rightarrow> error + ('f \<times> 'f)" where
  "parse_coords pf location_str =
     (let coords = split_space location_str
      in case py_index coords 0 of Inl e \<Rightarrow> Inl e | Inr c0 \<Rightarrow>
         (case py_float pf c0 of Inl e \<Rightarrow> Inl e | Inr lat \<Rightarrow>
         (case py_index coords 1 of Inl e \<Rightarrow> Inl e | Inr c1 \<Rightarrow>
         (case py_float pf c1 of Inl e \<Rightarrow> Inl e | Inr lon \<Rightarrow> Inr (lat, lon)))))"

text \<open>
  \<^verbatim>\<open>
  lat, lon = None, None
  location_str = str(first_row.get('training_location'))
  if pd.notna(location_str) and location_str.strip() not in ['nan', '']:
      try:
          ...
      except (ValueError, IndexError):
          pass
  \<close>
  An exception of another kind would leave the function; the result is an error then.
\<close>

definition session_location ::
  "(string \<Rightarrow> 'f option) \<Rightarrow> beneficiary \<Rightarrow> error + ('f option \<times> 'f option)" where
  "session_location pf first_row =
     (let location_str = py_str (field_get first_row ''training_location'' PNone)
      in if notna (Str location_str) \<and> py_strip location_str \<notin> set [''nan'', []]
         then (case parse_coords pf location_str of
                 Inr (lat, lon) \<Rightarrow> Inr (Some lat, Some lon)
               | Inl ValueError \<Rightarrow> Inr (None, None)
               | Inl IndexError \<Rightarrow> Inr (None, None)
               | Inl e \<Rightarrow> Inl e)
         else Inr (None, None))"

text \<open>
  \<^verbatim>\<open>
  beneficiary_count_day1 = group['beneficiary_cnic'].count()
  cnics_day1 = set(group['beneficiary_cnic'].astype(str).tolist())
  cnics_day2 = set(day2_attendance.get(session_id, set()))
  retention_rate = (len(cnics_day2) / beneficiary_count_day1) * 100 \
                   if beneficiary_count_day1 > 0 else 0
  \<close>
  \<^verbatim>\<open>count()\<close> counts the values of the column that are not missing. The count is a
  numpy integer, so the quotient and the product are numpy floats.
\<close>

definition beneficiary_count_day1 :: "beneficiary list \<Rightarrow> nat" where
  "beneficiary_count_day1 grp =
     length (filter notna (map (\<lambda>b. field_get b ''beneficiary_cnic'' PNone) grp))"

definition retention_rate ::
  "string set pydict \<Rightarrow> pyval \<Rightarrow> beneficiary list \<Rightarrow> rat number" where
  "retention_rate day2_attendance session_id grp =
     (let cnics_day1 = set (map (\<lambda>b. py_str (field_get b ''beneficiary_cnic'' PNone)) grp);
          cnics_day2 = dict_get day2_attendance session_id {}
      in if beneficiary_count_day1 grp > 0
         then Val (binary64
                (binary64 (binary64 (of_nat (card cnics_day2))
                           / binary64 (of_nat (beneficiary_count_day1 grp))) * 100))
         else Val 0)"

text \<open>
  \<^verbatim>\<open>re.search(r'\d{2}:\d{2}:\d{2}', s)\<close>: the leftmost place where two digits, a colon, two
  digits, a colon and two digits follow one another; \<open>None\<close> when there is none.
\<close>

fun hms_here :: "string \<Rightarrow> bool" where
  "hms_here (a # b # c # d # e # f # g # h # rest) =
     (is_digit a \<and> is_digit b \<and> c = CHR '':'' \<and> is_digit d \<and> is_digit e
      \<and> f = CHR '':'' \<and> is_digit g \<and> is_digit h)"
| "hms_here s = False"

fun re_search_hms :: "string \<Rightarrow> string option" where
  "re_search_hms [] = None"
| "re_search_hms (c # cs) =
     (if hms_here (c # cs) then Some (take 8 (c # cs)) else re_search_hms cs)"

text \<open>
  \<^verbatim>\<open>pd.to_datetime(re.search(..., str(v)).group(), format='%H:%M:%S').time()\<close>: the search
  returns \<^verbatim>\<open>None\<close> when nothing matches, and \<^verbatim>\<open>None.group()\<close> raises \<^verbatim>\<open>AttributeError\<close>.
\<close>

type_synonym time_of_day = "nat \<times> nat \<times> nat"

definition time_of ::
  "(string \<Rightarrow> time_of_day option) \<Rightarrow> pyval \<Rightarrow> error + time_of_day" where
  "time_of tt v =
     (case re_search_hms (py_str v) of
        None \<Rightarrow> Inl AttributeError
      | Some tok \<Rightarrow> (case tt tok of None \<Rightarrow> Inl ValueError | Some t \<Rightarrow> Inr t))"

text \<open>
  The seconds from midnight to a time of day; the difference of two of them is what
  \<^verbatim>\<open>(datetime.combine(datetime.min, b) - datetime.combine(datetime.min, a)).total_seconds()\<close>
  returns.
\<close>

fun seconds_of :: "time_of_day \<Rightarrow> int" where
  "seconds_of (h, m, s) = int h * 3600 + int m * 60 + int s"

text \<open>
  \<^verbatim>\<open>
  try:
      start_dt = pd.to_datetime(re.search(..., str(first_row.get('start'))).group(), ...).time()
      end_dt = pd.to_datetime(re.search(..., str(first_row.get('end'))).group(), ...).time()
      duration_td = datetime.combine(datetime.min, end_dt) - datetime.combine(datetime.min, start_dt)
      avg_training_time_hours = duration_td.total_seconds() / 3600
  except (ValueError, AttributeError):
      avg_training_time_hours = 0
  \<close>
  The difference of the two times is a whole number of seconds, which
  \<^verbatim>\<open>total_seconds()\<close> returns as a Python float, and the quotient is a Python float.
\<close>

definition training_time_try ::
  "(string \<Rightarrow> time_of_day option) \<Rightarrow> beneficiary \<Rightarrow> error + rat number" where
  "training_time_try tt first_row =
     (case time_of tt (field_get first_row ''start'' PNone) of Inl e \<Rightarrow> Inl e | Inr start_dt \<Rightarrow>
     (case time_of tt (field_get first_row ''end'' PNone) of Inl e \<Rightarrow> Inl e | Inr end_dt \<Rightarrow>
        Inr (Val (binary64 (of_int (seconds_of end_dt - seconds_of start_dt) / 3600)))))"

definition avg_training_time_hours ::
  "(string \<Rightarrow> time_of_day option) \<Rightarrow> beneficiary \<Rightarrow> error + rat number" where
  "avg_training_time_hours tt first_row =
     (case training_time_try tt first_row of
        Inr hours \<Rightarrow> Inr hours
      | Inl ValueError \<Rightarrow> Inr (Val 0)
      | Inl AttributeError \<Rightarrow> Inr (Val 0)
      | Inl e \<Rightarrow> Inl e)"

text \<open>
  \<^verbatim>\<open>
  quality_score = (first_row.get('q_read_write', 0) + first_row.get('q_recognize_currency', 0)
                   + first_row.get('q_simple_math', 0)) / 3
  \<close>
  With a text or \<^verbatim>\<open>None\<close> among the three the expression raises \<^verbatim>\<open>TypeError\<close>: adding a
  text or \<^verbatim>\<open>None\<close> to a number does, and three texts are concatenated but cannot be
  divided by 3. With numbers only, the result is not-a-number as soon as one of them
  is, whatever the types of the others, and the float that pandas and numpy compute
  otherwise.
\<close>

fun is_numeric :: "pyval \<Rightarrow> bool" where
  "is_numeric (Num r t) = True"
| "is_numeric NaN = True"
| "is_numeric (Str s) = False"
| "is_numeric PNone = False"

definition quality_score ::
  "'f arith \<Rightarrow> beneficiary list \<Rightarrow> beneficiary \<Rightarrow> error + 'f number" where
  "quality_score np recs first_row =
     (let a = field_get first_row ''q_read_write'' (Num 0 ''0'');
          b = field_get first_row ''q_recognize_currency'' (Num 0 ''0'');
          c = field_get first_row ''q_simple_math'' (Num 0 ''0'')
      in if is_numeric a \<and> is_numeric b \<and> is_numeric c
         then (if a = NaN \<or> b = NaN \<or> c = NaN then Inr Nan
               else Inr (Val (mean_of_three np recs a b c)))
         else Inl TypeError)"

text \<open>\<^verbatim>\<open>round(quality_score, 2)\<close>: not-a-number stays what it is.\<close>

fun quality_round :: "'f arith \<Rightarrow> 'f number \<Rightarrow> 'f number" where
  "quality_round np Nan = Nan"
| "quality_round np (Val q) = Val (round_two np q)"

text \<open>
  \<^verbatim>\<open>group['occupation'].dropna().value_counts().to_dict()\<close>: how often each occupation that
  is not missing occurs in the group.
\<close>

definition female_occupations :: "beneficiary list \<Rightarrow> nat pydict" where
  "female_occupations grp =
     (\<lambda>v. let n = length (filter (\<lambda>b. notna (field_get b ''occupation'' PNone)
                                   \<and> py_eq (field_get b ''occupation'' PNone) v) grp)
          in if n = 0 then None else Some n)"

section \<open>The session summary\<close>

record 'f summary =
  TrainingID :: pyval
  Training_Date :: string
  Province :: pyval
  District :: pyval
  ASPC_Name :: pyval
  Beneficiary_Count_Actual :: nat
  Female_Beneficiaries :: nat
  Retention_Rate_Pct :: "rat number"
  Quality_Index :: "'f number"
  Avg_Training_Time_Hours :: "rat number"
  Female_Occupations :: "nat pydict"
  Start_Location_Lat :: "'f option"
  Start_Location_Lon :: "'f option"

text \<open>
  The body of the loop over the groups, in the long-format table \<open>recs\<close>.
  \<^verbatim>\<open>group.iloc[0]\<close> is the first record of the group. The steps are evaluated in the
  order of the source and the first exception that is not caught ends the run. The
  retention is a numpy float and the training time a Python float.
\<close>

definition session_summary ::
  "(string \<Rightarrow> 'f option) \<Rightarrow> (string \<Rightarrow> time_of_day option) \<Rightarrow> 'f arith
     \<Rightarrow> beneficiary list \<Rightarrow> string set pydict
     \<Rightarrow> pyval \<Rightarrow> beneficiary list \<Rightarrow> error + 'f summary" where
  "session_summary pf tt np recs day2_attendance session_id grp =
     (case grp of [] \<Rightarrow> Inl IndexError | first_row # others \<Rightarrow>
     (case session_location pf first_row of Inl e \<Rightarrow> Inl e | Inr (lat, lon) \<Rightarrow>
     (case avg_training_time_hours tt first_row of Inl e \<Rightarrow> Inl e | Inr hours \<Rightarrow>
     (case quality_score np recs first_row of Inl e \<Rightarrow> Inl e | Inr quality \<Rightarrow>
        Inr \<lparr>TrainingID = session_id,
             Training_Date =
               (case split_space (py_str (field_get first_row ''SubmissionDate'' PNone)) of
                  [] \<Rightarrow> [] | day # time \<Rightarrow> day),
             Province = field_get first_row ''province_select'' PNone,
             District = field_get first_row ''district_select'' PNone,
             ASPC_Name = field_get first_row ''lead_trainer_name'' PNone,
             Beneficiary_Count_Actual = beneficiary_count_day1 grp,
             Female_Beneficiaries = beneficiary_count_day1 grp,
             Retention_Rate_Pct = np_round (retention_rate day2_attendance session_id grp) 2,
             Quality_Index = quality_round np quality,
             Avg_Training_Time_Hours = py_round hours 1,
             Female_Occupations = female_occupations grp,
             Start_Location_Lat = lat,
             Start_Location_Lon = lon\<rparr>))))"

section \<open>Grouping and the whole run\<close>

text \<open>
  \<^verbatim>\<open>df_final_database.groupby('session_id')\<close>: the records whose session identifier is
  missing are dropped, the others are grouped by it, each group in the order of the
  table, and the groups come in ascending order of the key (numbers by value and before
  texts, texts by their characters). Grouping a table that has no column
  \<^verbatim>\<open>session_id\<close> raises \<^verbatim>\<open>KeyError\<close>; a table made from a list of dictionaries has the
  keys of the dictionaries as its columns, and none when the list is empty.
\<close>

definition has_column :: "beneficiary list \<Rightarrow> string \<Rightarrow> bool" where
  "has_column recs k = (\<exists>b \<in> set recs. b k \<noteq> None)"

fun uniq_keys :: "pyval list \<Rightarrow> pyval list" where
  "uniq_keys [] = []"
| "uniq_keys (k # ks) = k # filter (\<lambda>k'. \<not> py_eq k' k) (uniq_keys ks)"

fun sort_rank :: "pyval \<Rightarrow> nat \<times> rat \<times> string" where
  "sort_rank (Num r t) = (0, r, [])"
| "sort_rank (Str s) = (1, 0, s)"
| "sort_rank v = (2, 0, [])"

definition group_keys :: "beneficiary list \<Rightarrow> pyval list" where
  "group_keys recs =
     sort_key sort_rank
       (uniq_keys (filter notna (map (\<lambda>b. field_get b ''session_id'' PNone) recs)))"

definition session_group :: "beneficiary list \<Rightarrow> pyval \<Rightarrow> beneficiary list" where
  "session_group recs k = filter (\<lambda>b. py_eq (field_get b ''session_id'' PNone) k) recs"

definition groupby_session_id :: "beneficiary list \<Rightarrow> error + (pyval \<times> beneficiary list) list" where
  "groupby_session_id recs =
     (if has_column recs ''session_id''
      then Inr (map (\<lambda>k. (k, session_group recs k)) (group_keys recs))
      else Inl (KeyError ''session_id''))"

text \<open>The loop over the groups: the first exception ends it.\<close>

fun dashboard_records ::
  "(string \<Rightarrow> 'f option) \<Rightarrow> (string \<Rightarrow> time_of_day option) \<Rightarrow> 'f arith
     \<Rightarrow> beneficiary list \<Rightarrow> string set pydict
     \<Rightarrow> (pyval \<times> beneficiary list) list \<Rightarrow> error + 'f summary list" where
  "dashboard_records pf tt np recs day2_attendance [] = Inr []"
| "dashboard_records pf tt np recs day2_attendance ((session_id, grp) # rest) =
     (case session_summary pf tt np recs day2_attendance session_id grp of
        Inl e \<Rightarrow> Inl e
      | Inr s \<Rightarrow> (case dashboard_records pf tt np recs day2_attendance rest of
                   Inl e \<Rightarrow> Inl e
                 | Inr ss \<Rightarrow> Inr (s # ss)))"

definition MONTHLY_TARGET_PER_TRAINER :: rat where
  "MONTHLY_TARGET_PER_TRAINER = 2048 / 8"

definition TOTAL_PROJECT_TARGET_BENEFICIARIES :: rat where
  "TOTAL_PROJECT_TARGET_BENEFICIARIES = 250000"

record 'f artifact =
  dashboard_data :: "'f summary list"
  metadata :: "(string \<times> rat) list"

text \<open>
  What the program prints: that the master file was not found, that it is being read,
  how many long-format rows were made, that the output was saved, or that an error
  occurred.
\<close>

datatype message =
  NotFound string | Reading string | Created nat | Saved string | ErrorOccurred error

text \<open>
  The part of the \<^verbatim>\<open>try\<close> block between reading the table and writing the output, with
  what it prints. \<^verbatim>\<open>df_master['main_menu']\<close> raises \<^verbatim>\<open>KeyError\<close> when the table has no
  such column.
\<close>

definition build_dashboard ::
  "(string \<Rightarrow> 'f option) \<Rightarrow> (string \<Rightarrow> time_of_day option) \<Rightarrow> 'f arith \<Rightarrow> dataframe
     \<Rightarrow> message list \<times> (error + 'f artifact)" where
  "build_dashboard pf tt np df_master =
     (if ''main_menu'' \<notin> set (columns df_master) then ([], Inl (KeyError ''main_menu''))
      else
        let day2_attendance = build_attendance (iterrows (select_menu ''day2'' df_master));
            df_final_database = long_format_list (select_menu ''day1'' df_master);
            printed = [Created (length df_final_database)]
        in case groupby_session_id df_final_database of
             Inl e \<Rightarrow> (printed, Inl e)
           | Inr grouped_by_session \<Rightarrow>
               (case dashboard_records pf tt np df_final_database day2_attendance
                       grouped_by_session of
                  Inl e \<Rightarrow> (printed, Inl e)
                | Inr records \<Rightarrow>
                    (printed,
                     Inr \<lparr>dashboard_data = records,
                          metadata =
                            [(''TOTAL_PROJECT_TARGET_BENEFICIARIES'',
                              TOTAL_PROJECT_TARGET_BENEFICIARIES),
                             (''MONTHLY_TARGET_PER_TRAINER'', MONTHLY_TARGET_PER_TRAINER)]\<rparr>)))"

text \<open>
  The files and the terminal. A file holds a workbook (given by the table that
  \<^verbatim>\<open>pd.read_excel\<close> with the identifier columns read as text returns for it), a dashboard
  artifact written by \<^verbatim>\<open>json.dump\<close>, or something else; reading anything but a workbook
  raises. Writing the artifact is taken to succeed.
\<close>

datatype 'f file_content = Workbook dataframe | Json "'f artifact" | Other string

record 'f world =
  files :: "string \<Rightarrow> 'f file_content option"
  stdout :: "message list"

fun read_excel :: "'f file_content \<Rightarrow> error + dataframe" where
  "read_excel (Workbook df) = Inr df"
| "read_excel f = Inl ReadError"

text \<open>
  \<^verbatim>\<open>
  def prepare_dashboard_data(master_file_path, output_json_path):
      if not os.path.exists(master_file_path):
          print(f"Error: The master file '{master_file_path}' was not found.")
          return
      try:
          ...
          with open(output_json_path, 'w') as f:
              json.dump(final_json, f, indent=4)
          print(...)
      except Exception as e:
          print(f"An error occurred: {e}")
  \<close>
\<close>

definition prepare_dashboard_data ::
  "(string \<Rightarrow> 'f option) \<Rightarrow> (string \<Rightarrow> time_of_day option) \<Rightarrow> 'f arith \<Rightarrow> 'f world
     \<Rightarrow> string \<Rightarrow> string \<Rightarrow> 'f world" where
  "prepare_dashboard_data pf tt np w master_file_path output_json_path =
     (case files w master_file_path of
        None \<Rightarrow> w\<lparr>stdout := stdout w @ [NotFound master_file_path]\<rparr>
      | Some f \<Rightarrow>
          (case read_excel f of
             Inl e \<Rightarrow> w\<lparr>stdout := stdout w @ [Reading master_file_path, ErrorOccurred e]\<rparr>
           | Inr df_master \<Rightarrow>
               (case build_dashboard pf tt np df_master of
                  (printed, Inl e) \<Rightarrow>
                    w\<lparr>stdout := stdout w @ [Reading master_file_path] @ printed
                                   @ [ErrorOccurred e]\<rparr>
                | (printed, Inr final_json) \<Rightarrow>
                    w\<lparr>files := (files w)(output_json_path \<mapsto> Json final_json),
                      stdout := stdout w @ [Reading master_file_path] @ printed
                                   @ [Saved output_json_path]\<rparr>)))"

section \<open>Notions used to state the properties\<close>

text \<open>The session and the attendee list of an attendance row, as the loop reads them.\<close>

definition session_of :: "series \<Rightarrow> pyval" where
  "session_of row = row_get row ''day2_session_select'' PNone"

definition attendees_of :: "series \<Rightarrow> pyval" where
  "attendees_of row = row_get row ''beneficiaries_present'' PNone"

text \<open>
  An attendance row contributes to the entry of session \<open>k\<close> when its session identifier
  and its attendee list are both present and the identifier equals \<open>k\<close>.
\<close>

definition contributes :: "pyval \<Rightarrow> series \<Rightarrow> bool" where
  "contributes k row =
     (notna (session_of row) \<and> notna (attendees_of row) \<and> py_eq k (session_of row))"

text \<open>The pieces of a string joined by single spaces.\<close>

fun join_space :: "string list \<Rightarrow> string" where
  "join_space [] = []"
| "join_space [p] = p"
| "join_space (p # q # ps) = p @ CHR '' '' # join_space (q # ps)"

text \<open>The location, start and end values of a first row, as the loop body reads them.\<close>

definition location_of :: "beneficiary \<Rightarrow> pyval" where
  "location_of first_row = field_get first_row ''training_location'' PNone"

definition start_of :: "beneficiary \<Rightarrow> pyval" where
  "start_of first_row = field_get first_row ''start'' PNone"

definition end_of :: "beneficiary \<Rightarrow> pyval" where
  "end_of first_row = field_get first_row ''end'' PNone"

text \<open>A token of the form \<^verbatim>\<open>HH:MM:SS\<close>: eight characters, digits around two colons.\<close>

definition hms_token :: "string \<Rightarrow> bool" where
  "hms_token tok =
     (length tok = 8 \<and> is_digit (tok ! 0) \<and> is_digit (tok ! 1) \<and> tok ! 2 = CHR '':''
      \<and> is_digit (tok ! 3) \<and> is_digit (tok ! 4) \<and> tok ! 5 = CHR '':''
      \<and> is_digit (tok ! 6) \<and> is_digit (tok ! 7))"

text \<open>A token of the form \<^verbatim>\<open>HH:MM:SS\<close> starts at position \<open>i\<close> of a string.\<close>

definition token_at :: "string \<Rightarrow> nat \<Rightarrow> bool" where
  "token_at s i = (i + 8 \<le> length s \<and> hms_token (take 8 (drop i s)))"

text \<open>
  The time of day extracted from a timestamp value: the token found by the search,
  parsed; \<open>None\<close> when there is no token or when it does not parse.
\<close>

definition parsed_time :: "(string \<Rightarrow> time_of_day option) \<Rightarrow> pyval \<Rightarrow> time_of_day option" where
  "parsed_time tt v = Option.bind (re_search_hms (py_str v)) tt"

text \<open>
  The value the specification gives an indicator of a registration row: the number in
  the cell, and 0 when the indicator is absent.
\<close>

definition indicator_or_zero :: "series \<Rightarrow> string \<Rightarrow> rat" where
  "indicator_or_zero row q =
     (if q \<in> set (fst row) then (case snd row q of Num r t \<Rightarrow> r | v \<Rightarrow> 0) else 0)"

section \<open>Example inputs\<close>

text \<open>A row given by its filled cells; every other cell of the row is empty.\<close>

definition mk_row :: "(string \<times> pyval) list \<Rightarrow> string \<Rightarrow> pyval" where
  "mk_row kvs k = (case map_of kvs k of None \<Rightarrow> NaN | Some v \<Rightarrow> v)"

text \<open>Two attendance rows of the same session, listing different attendees.\<close>

definition attendance_columns :: "string list" where
  "attendance_columns = [''main_menu'', ''day2_session_select'', ''beneficiaries_present'']"

definition attendance_first :: series where
  "attendance_first =
     (attendance_columns,
      mk_row [(''main_menu'', Str ''day2''), (''day2_session_select'', Str ''S1''),
              (''beneficiaries_present'', Str ''111'')])"

definition attendance_second :: series where
  "attendance_second =
     (attendance_columns,
      mk_row [(''main_menu'', Str ''day2''), (''day2_session_select'', Str ''S1''),
              (''beneficiaries_present'', Str ''222'')])"

text \<open>An attendee list with a line break, and not a space, between two identifiers.\<close>

definition attendees_on_two_lines :: pyval where
  "attendees_on_two_lines = Str (''111'' @ [CHR 0x0A] @ ''222'')"

text \<open>An attendance row without a session identifier.\<close>

definition attendance_no_session :: series where
  "attendance_no_session =
     (attendance_columns,
      mk_row [(''main_menu'', Str ''day2''), (''beneficiaries_present'', Str ''333'')])"

text \<open>A registration row with identifiers in the slots 1, 2 and 5, and an age in slot 1.\<close>

definition registration_row :: series where
  "registration_row =
     ([''main_menu'', ''session_id'', ''beneficiary_cnic_1'', ''beneficiary_cnic_2'',
       ''beneficiary_cnic_3'', ''beneficiary_cnic_5'', ''age_1''],
      mk_row [(''main_menu'', Str ''day1''), (''session_id'', Str ''S1''),
              (''beneficiary_cnic_1'', Str ''123-45''), (''beneficiary_cnic_2'', Str ''67890''),
              (''beneficiary_cnic_5'', Str ''12345''), (''age_1'', Num 30 ''30'')])"

text \<open>
  For the examples the library parameters are instantiated: \<open>example_float\<close> reads an
  unsigned decimal literal with digits before the point (and, when there is a point,
  after it) and refuses everything else; \<open>example_time\<close> reads a token of the form
  \<^verbatim>\<open>HH:MM:SS\<close> with an hour below 24 and minute and second below 60. The examples use
  them only on strings on which \<^verbatim>\<open>float\<close> and \<^verbatim>\<open>pd.to_datetime\<close> behave the same way.
\<close>

definition digits_value :: "string \<Rightarrow> nat" where
  "digits_value s = foldl (\<lambda>n c. 10 * n + (of_char c - 48)) 0 s"

definition example_float :: "string \<Rightarrow> rat option" where
  "example_float s =
     (let ip = takeWhile is_digit s; rest = dropWhile is_digit s
      in if ip = [] then None
         else (case rest of
                 [] \<Rightarrow> Some (of_nat (digits_value ip))
               | c # fp \<Rightarrow>
                   if c = CHR ''.'' \<and> fp \<noteq> [] \<and> list_all is_digit fp
                   then Some (of_nat (digits_value ip)
                              + of_nat (digits_value fp) / 10 ^ length fp)
                   else None))"

text \<open>
  \<open>example_arith\<close> takes the mean of three number cells as the float nearest to the exact
  mean, and rounds a float to two places as Python does; the examples use it on small
  whole numbers, where numpy computes the same.
\<close>

fun cell_value :: "pyval \<Rightarrow> rat" where
  "cell_value (Num r t) = r"
| "cell_value v = 0"

definition example_arith :: "rat arith" where
  "example_arith =
     \<lparr>mean_of_three =
        (\<lambda>recs a b c. binary64 ((cell_value a + cell_value b + cell_value c) / 3)),
      round_two = (\<lambda>x. round_rat x 2)\<rparr>"

definition example_time :: "string \<Rightarrow> time_of_day option" where
  "example_time tok =
     (if length tok = 8 \<and> hms_here tok
         \<and> digits_value (take 2 tok) < 24 \<and> digits_value (take 2 (drop 3 tok)) < 60
         \<and> digits_value (take 2 (drop 6 tok)) < 60
      then Some (digits_value (take 2 tok), digits_value (take 2 (drop 3 tok)),
                 digits_value (take 2 (drop 6 tok)))
      else None)"

text \<open>
  The end-to-end scenario of the specification: two registration rows of session S1
  with the identifiers \<^verbatim>\<open>123-45\<close> and \<^verbatim>\<open>12345\<close>, and one attendance row of S1 listing
  \<^verbatim>\<open>12345 99999\<close>.
\<close>

definition scenario_columns :: "string list" where
  "scenario_columns =
     [''main_menu'', ''session_id'', ''beneficiary_cnic_1'', ''day2_session_select'',
      ''beneficiaries_present'']"

definition scenario_two_one :: dataframe where
  "scenario_two_one =
     \<lparr>columns = scenario_columns,
      cells =
        [mk_row [(''main_menu'', Str ''day1''), (''session_id'', Str ''S1''),
                 (''beneficiary_cnic_1'', Str ''123-45'')],
         mk_row [(''main_menu'', Str ''day1''), (''session_id'', Str ''S1''),
                 (''beneficiary_cnic_1'', Str ''12345'')],
         mk_row [(''main_menu'', Str ''day2''), (''day2_session_select'', Str ''S1''),
                 (''beneficiaries_present'', Str ''12345 99999'')]]\<rparr>"

text \<open>One registration of session S1, and an attendance row of S1 listing three identifiers.\<close>

definition scenario_one_three :: dataframe where
  "scenario_one_three =
     \<lparr>columns = scenario_columns,
      cells =
        [mk_row [(''main_menu'', Str ''day1''), (''session_id'', Str ''S1''),
                 (''beneficiary_cnic_1'', Str ''11111'')],
         mk_row [(''main_menu'', Str ''day2''), (''day2_session_select'', Str ''S1''),
                 (''beneficiaries_present'', Str ''11111 22222 33333'')]]\<rparr>"

text \<open>First rows of a group, with a location and with start and end timestamps.\<close>

definition located_row :: "string \<Rightarrow> beneficiary" where
  "located_row location = [''training_location'' \<mapsto> Str location]"

definition timed_row :: "string \<Rightarrow> string \<Rightarrow> beneficiary" where
  "timed_row start_text end_text = [''start'' \<mapsto> Str start_text, ''end'' \<mapsto> Str end_text]"

text \<open>
  Registration rows with the indicators: in the first the table has no column
  \<^verbatim>\<open>q_read_write\<close>; in the second it has the column and the cell of the row is empty.
\<close>

definition indicator_row_no_column :: series where
  "indicator_row_no_column =
     ([''main_menu'', ''session_id'', ''beneficiary_cnic_1'', ''q_recognize_currency'',
       ''q_simple_math''],
      mk_row [(''main_menu'', Str ''day1''), (''session_id'', Str ''S1''),
              (''beneficiary_cnic_1'', Str ''12345''), (''q_recognize_currency'', Num 1 ''1''),
              (''q_simple_math'', Num 1 ''1'')])"

definition indicator_row_empty_cell :: series where
  "indicator_row_empty_cell =
     ([''main_menu'', ''session_id'', ''beneficiary_cnic_1'', ''q_read_write'',
       ''q_recognize_currency'', ''q_simple_math''],
      mk_row [(''main_menu'', Str ''day1''), (''session_id'', Str ''S1''),
              (''beneficiary_cnic_1'', Str ''12345''), (''q_recognize_currency'', Num 1 ''1''),
              (''q_simple_math'', Num 1 ''1'')])"

text \<open>A world without the master file, in which the output path holds an earlier file.\<close>

definition world_without_master :: "rat world" where
  "world_without_master =
     \<lparr>files = [''dashboard_data.json'' \<mapsto> Other ''earlier output''], stdout = []\<rparr>"

section \<open>Properties of the identifier normalizer\<close>

lemma re_sub_non_digits_filter: "re_sub_non_digits s = filter is_digit s"
  by (induction s) simp_all

lemma differ_only_in_non_digits_filter:
  "differ_only_in_non_digits s t \<Longrightarrow> filter is_digit s = filter is_digit t"
  by (induction s t rule: differ_only_in_non_digits.induct) (auto split: if_splits)

text \<open>
  Claim C5. The normalizer returns the decimal digits of the text of its argument, in
  their order, and the empty string for a missing argument; normalizing a normalized
  identifier changes nothing; two strings that differ only in non-digit characters have
  the same normal form.
\<close>

theorem standardize_cnic_digits:
  "(notna v \<longrightarrow> standardize_cnic v = filter is_digit (py_str v))
   \<and> (\<not> notna v \<longrightarrow> standardize_cnic v = [])
   \<and> (\<forall>c \<in> set (standardize_cnic v). is_digit c)
   \<and> standardize_cnic (Str (standardize_cnic v)) = standardize_cnic v
   \<and> (differ_only_in_non_digits s t \<longrightarrow> standardize_cnic (Str s) = standardize_cnic (Str t))"
  by (auto simp: standardize_cnic_def re_sub_non_digits_filter
      dest: differ_only_in_non_digits_filter)

theorem standardize_cnic_digits_witness:
  "notna (Str ''35202-1234567-1'')
   \<and> standardize_cnic (Str ''35202-1234567-1'') = ''3520212345671''
   \<and> \<not> notna NaN \<and> standardize_cnic NaN = []
   \<and> differ_only_in_non_digits ''123-45'' ''12 345''
   \<and> standardize_cnic (Str ''123-45'') = standardize_cnic (Str ''12 345'')"
  using standardize_cnic_digits [of "Str ''35202-1234567-1''" "''123-45''" "''12 345''"]
    standardize_cnic_digits [of NaN "''123-45''" "''12 345''"]
  by (simp add: is_digit_def)


section \<open>Properties of the attendance index\<close>

lemma attendance_step_apply:
  "attendance_step d row k =
     (if contributes k row then Some (cnic_list (attendees_of row)) else d k)"
  by (simp add: attendance_step_def contributes_def session_of_def attendees_of_def
      dict_set_def Let_def)

lemma foldl_attendance_none:
  "\<forall>r \<in> set rows. \<not> contributes k r \<Longrightarrow> foldl attendance_step d rows k = d k"
  by (induction rows arbitrary: d) (simp_all add: attendance_step_apply)

lemma foldl_attendance_last:
  "contributes k r \<Longrightarrow> \<forall>r' \<in> set later. \<not> contributes k r' \<Longrightarrow>
   foldl attendance_step d (earlier @ r # later) k = Some (cnic_list (attendees_of r))"
  by (simp add: foldl_attendance_none attendance_step_apply)

lemma dropWhile_all: "(\<forall>x \<in> set (dropWhile P xs). P x) \<longleftrightarrow> (\<forall>x \<in> set xs. P x)"
  by (induction xs) auto

lemma py_strip_empty: "py_strip c = [] \<longleftrightarrow> (\<forall>ch \<in> set c. is_space ch)"
  by (simp add: py_strip_def dropWhile_eq_Nil_conv dropWhile_all)

lemma cnic_list_set:
  "cnic_list v =
     {standardize_cnic (Str c) | c.
        c \<in> set (split_space (py_str v)) \<and> (\<exists>ch \<in> set c. \<not> is_space ch)}"
  by (auto simp: cnic_list_def py_strip_empty)

lemma split_space_not_Nil: "split_space s \<noteq> []"
  by (induction s) (auto split: list.splits)

lemma join_split_space: "join_space (split_space s) = s"
proof (induction s)
  case Nil
  show ?case by simp
next
  case (Cons c cs)
  obtain w ws where "split_space cs = w # ws"
    using split_space_not_Nil [of cs] by (cases "split_space cs") auto
  with Cons show ?case by (cases ws) auto
qed

lemma split_space_no_space: "p \<in> set (split_space s) \<Longrightarrow> CHR '' '' \<notin> set p"
  by (induction s arbitrary: p) (auto split: if_splits list.splits)

lemma is_space_not_digit: "is_space ch \<Longrightarrow> \<not> is_digit ch"
  by (auto simp: is_digit_def is_space_def)

lemma standardize_cnic_blank: "\<forall>ch \<in> set c. is_space ch \<Longrightarrow> standardize_cnic (Str c) = []"
  by (auto simp: standardize_cnic_def re_sub_non_digits_filter filter_empty_conv
      dest: is_space_not_digit)

lemma cnic_list_nonempty:
  "cnic_list v - {[]}
     = {standardize_cnic (Str c) | c. c \<in> set (split_space (py_str v))} - {[]}"
proof -
  have "standardize_cnic (Str c) \<noteq> [] \<Longrightarrow> \<exists>ch \<in> set c. \<not> is_space ch" for c
    using standardize_cnic_blank [of c] by blast
  then show ?thesis
    unfolding cnic_list_set by blast
qed

text \<open>
  Claim C3, as the code has it. The entry of a session in the attendance index is the
  set of the last attendance row that contributes to the session, and there is no entry
  when no row contributes: a later row of the same session replaces the set of an
  earlier one. The attendee list of a row is cut at single spaces, and at nothing else,
  and the non-empty members of the set of the row are the non-empty normal forms of
  the pieces. A row whose session identifier or attendee list is missing leaves the
  index as it is.
\<close>

theorem attendance_index_last_row:
  "((\<forall>r \<in> set rows. \<not> contributes k r) \<longrightarrow> build_attendance rows k = None)
   \<and> (contributes k r \<and> (\<forall>r' \<in> set later. \<not> contributes k r') \<longrightarrow>
        build_attendance (earlier @ r # later) k = Some (cnic_list (attendees_of r)))
   \<and> cnic_list v - {[]}
        = {standardize_cnic (Str c) | c. c \<in> set (split_space (py_str v))} - {[]}
   \<and> join_space (split_space s) = s
   \<and> (\<forall>p \<in> set (split_space s). CHR '' '' \<notin> set p)
   \<and> (\<not> (notna (session_of row) \<and> notna (attendees_of row)) \<longrightarrow>
        attendance_step d row = d)"
proof -
  have "\<not> (notna (session_of row) \<and> notna (attendees_of row)) \<Longrightarrow> attendance_step d row = d"
    by (rule ext) (auto simp: attendance_step_apply contributes_def)
  then show ?thesis
    unfolding build_attendance_def
    using foldl_attendance_none [of rows k "\<lambda>k. None"]
      foldl_attendance_last [of k r later "\<lambda>k. None" earlier]
      cnic_list_nonempty [of v] join_split_space [of s] split_space_no_space [of _ s]
    by blast
qed

theorem attendance_index_last_row_witness:
  "\<not> contributes (Str ''S1'') attendance_no_session
   \<and> build_attendance [attendance_no_session] (Str ''S1'') = None
   \<and> contributes (Str ''S1'') attendance_second
   \<and> build_attendance ([attendance_first] @ attendance_second # [attendance_no_session])
        (Str ''S1'') = Some {''222''}
   \<and> join_space (split_space ''12345 99999'') = ''12345 99999''
   \<and> \<not> (notna (session_of attendance_no_session) \<and> notna (attendees_of attendance_no_session))
   \<and> attendance_step (\<lambda>k. None) attendance_no_session = (\<lambda>k. None)"
proof -
  have c: "contributes (Str ''S1'') attendance_second"
    by (simp add: contributes_def session_of_def attendees_of_def attendance_second_def
        attendance_columns_def mk_row_def)
  have n: "\<not> (notna (session_of attendance_no_session)
              \<and> notna (attendees_of attendance_no_session))"
    by (simp add: session_of_def attendance_no_session_def attendance_columns_def mk_row_def)
  then have n1: "\<not> contributes (Str ''S1'') attendance_no_session"
    by (auto simp: contributes_def)
  then have n': "\<forall>r \<in> set [attendance_no_session]. \<not> contributes (Str ''S1'') r"
    by simp
  have l: "cnic_list (attendees_of attendance_second) = {''222''}"
    by (simp add: cnic_list_def attendees_of_def attendance_second_def attendance_columns_def
        mk_row_def py_strip_def is_space_def standardize_cnic_def is_digit_def)
  show ?thesis
    using attendance_index_last_row [of "[attendance_no_session]" "Str ''S1''"
        attendance_second "[attendance_no_session]" "[attendance_first]" NaN "''12345 99999''"
        attendance_no_session "\<lambda>k. None"] c n n1 n' l
    by simp
qed

text \<open>
  The claim as the specification words it fails in two places. With two attendance rows
  for session S1, the identifier listed by the first is not in the index: the sets of
  the rows are not united. And a line break between two identifiers, which is
  whitespace, does not separate them: the two become one token.
\<close>

theorem attendance_union_counterexample:
  "contributes (Str ''S1'') attendance_first
   \<and> ''111'' \<in> cnic_list (attendees_of attendance_first)
   \<and> build_attendance [attendance_first, attendance_second] (Str ''S1'') = Some {''222''}
   \<and> ''111'' \<notin> {''222''}
   \<and> is_space (CHR 0x0A)
   \<and> cnic_list attendees_on_two_lines = {''111222''}"
  by (simp add: build_attendance_def attendance_step_def dict_set_def Let_def
      contributes_def session_of_def attendees_of_def cnic_list_def
      attendance_first_def attendance_second_def attendance_columns_def mk_row_def
      attendees_on_two_lines_def py_strip_def is_space_def standardize_cnic_def is_digit_def)

section \<open>Properties of the reshape step\<close>

lemma concat_singletons:
  "concat (map (\<lambda>i. if P i then [f i] else []) xs) = map f (filter P xs)"
  by (induction xs) simp_all

lemma reshape_row_eq:
  "reshape_row row = map (beneficiary_data row) (filter (slot_present row) [1..<36])"
  unfolding reshape_row_def by (rule concat_singletons)

lemma length_reshape_row:
  "length (reshape_row row) = length (filter (slot_present row) [1..<36])"
  by (simp add: reshape_row_eq)

lemma beneficiary_data_cnic:
  "beneficiary_data row i ''beneficiary_cnic'' =
     Some (row_get row (''beneficiary_cnic_'' @ str_nat i) PNone)"
  by (simp add: beneficiary_data_def beneficiary_specific_prefixes_def Let_def)

text \<open>
  Claim C4 at a registration row with identifiers in the slots 1, 2 and 5 (slot 3 has
  a column and an empty cell, slot 4 has no column). The row gives three records, one
  for each of the three slots, and the age of slot 1 is passed on while the missing
  sub-fields are \<^verbatim>\<open>None\<close>. The identifier of the record of slot 1 is the text of the
  cell, \<^verbatim>\<open>123-45\<close>, and not its normal form \<^verbatim>\<open>12345\<close>: the loop over the prefixes stores
  the cell under \<^verbatim>\<open>beneficiary_cnic\<close> after the normal form was stored there.
\<close>

theorem reshape_row_raw_identifier:
  "filter (slot_present registration_row) [1..<36] = [1, 2, 5]
   \<and> map (\<lambda>b. b ''beneficiary_cnic'') (reshape_row registration_row)
       = [Some (Str ''123-45''), Some (Str ''67890''), Some (Str ''12345'')]
   \<and> map (\<lambda>b. b ''age'') (reshape_row registration_row)
       = [Some (Num 30 ''30''), Some PNone, Some PNone]
   \<and> map (\<lambda>b. b ''session_id'') (reshape_row registration_row)
       = [Some (Str ''S1''), Some (Str ''S1''), Some (Str ''S1'')]
   \<and> standardize_cnic (Str ''123-45'') = ''12345''"
  by code_simp


section \<open>Properties of the location\<close>

lemma parse_coords_cases:
  "parse_coords pf s =
     (let coords = split_space s in
      case pf (coords ! 0) of None \<Rightarrow> Inl ValueError
      | Some lat \<Rightarrow> if length coords < 2 then Inl IndexError
          else (case pf (coords ! 1) of None \<Rightarrow> Inl ValueError | Some lon \<Rightarrow> Inr (lat, lon)))"
  using split_space_not_Nil [of s]
  by (cases "split_space s")
    (auto simp: parse_coords_def py_index_def py_float_def Let_def split: option.splits)

lemma session_location_eq:
  "session_location pf first_row =
     Inr (let s = py_str (location_of first_row); coords = split_space s
          in if py_strip s \<notin> {''nan'', []} \<and> 2 \<le> length coords
                \<and> pf (coords ! 0) \<noteq> None \<and> pf (coords ! 1) \<noteq> None
             then (pf (coords ! 0), pf (coords ! 1)) else (None, None))"
  by (auto simp: session_location_def location_of_def parse_coords_cases Let_def
      split: option.splits)

text \<open>
  Claim C6, as the code has it. Parsing the location never raises and sets both
  coordinates or none. The location \<^verbatim>\<open>33.6 73.0\<close> gives the floats of \<^verbatim>\<open>33.6\<close> and
  \<^verbatim>\<open>73.0\<close>. Both coordinates are unset when the value is missing, when the text is empty
  or \<^verbatim>\<open>nan\<close> after stripping, when it has fewer than two pieces between single spaces,
  and when the first or the second piece is not a float. Otherwise both are set from
  the first two pieces, whatever follows them.
\<close>

theorem session_location_both_or_none:
  "(\<exists>lat lon. session_location pf first_row = Inr (lat, lon) \<and> (lat = None \<longleftrightarrow> lon = None))
   \<and> (location_of first_row = Str ''33.6 73.0'' \<and> pf ''33.6'' = Some a \<and> pf ''73.0'' = Some b
        \<longrightarrow> session_location pf first_row = Inr (Some a, Some b))
   \<and> (\<not> notna (location_of first_row) \<longrightarrow> session_location pf first_row = Inr (None, None))
   \<and> (py_strip (py_str (location_of first_row)) \<in> {''nan'', []}
        \<longrightarrow> session_location pf first_row = Inr (None, None))
   \<and> (length (split_space (py_str (location_of first_row))) < 2
        \<longrightarrow> session_location pf first_row = Inr (None, None))
   \<and> (2 \<le> length (split_space (py_str (location_of first_row)))
        \<and> (pf (split_space (py_str (location_of first_row)) ! 0) = None
           \<or> pf (split_space (py_str (location_of first_row)) ! 1) = None)
        \<longrightarrow> session_location pf first_row = Inr (None, None))
   \<and> (py_strip (py_str (location_of first_row)) \<notin> {''nan'', []}
        \<and> 2 \<le> length (split_space (py_str (location_of first_row)))
        \<and> pf (split_space (py_str (location_of first_row)) ! 0) = Some x
        \<and> pf (split_space (py_str (location_of first_row)) ! 1) = Some y
        \<longrightarrow> session_location pf first_row = Inr (Some x, Some y))"
proof -
  have missing: "session_location pf first_row = Inr (None, None)"
    if "\<not> notna (location_of first_row)"
  proof (cases "location_of first_row")
    case PNone
    then show ?thesis
      by (simp add: session_location_eq Let_def)
  next
    case NaN
    then show ?thesis
      by (simp add: session_location_eq Let_def py_strip_def is_space_def)
  qed (use that in simp_all)
  have example: "session_location pf first_row = Inr (Some a, Some b)"
    if "location_of first_row = Str ''33.6 73.0''" "pf ''33.6'' = Some a" "pf ''73.0'' = Some b"
    using that by (simp add: session_location_eq Let_def py_strip_def is_space_def)
  show ?thesis
    using missing example
    by (auto simp: session_location_eq Let_def)
qed

theorem session_location_both_or_none_witness:
  "location_of (located_row ''33.6 73.0'') = Str ''33.6 73.0''
   \<and> example_float ''33.6'' = Some (168 / 5) \<and> example_float ''73.0'' = Some 73
   \<and> session_location example_float (located_row ''33.6 73.0'') = Inr (Some (168 / 5), Some 73)
   \<and> \<not> notna (location_of Map.empty)
   \<and> session_location example_float Map.empty = Inr (None, None)
   \<and> py_strip (py_str (location_of (located_row []))) \<in> {''nan'', []}
   \<and> session_location example_float (located_row []) = Inr (None, None)
   \<and> length (split_space (py_str (location_of (located_row ''33.6'')))) < 2
   \<and> session_location example_float (located_row ''33.6'') = Inr (None, None)
   \<and> 2 \<le> length (split_space (py_str (location_of (located_row ''33.6 north''))))
   \<and> example_float (split_space (py_str (location_of (located_row ''33.6 north''))) ! 1) = None
   \<and> session_location example_float (located_row ''33.6 north'') = Inr (None, None)
   \<and> py_strip (py_str (location_of (located_row ''1 2''))) \<notin> {''nan'', []}
   \<and> 2 \<le> length (split_space (py_str (location_of (located_row ''1 2''))))
   \<and> example_float (split_space (py_str (location_of (located_row ''1 2''))) ! 0) = Some 1
   \<and> example_float (split_space (py_str (location_of (located_row ''1 2''))) ! 1) = Some 2
   \<and> session_location example_float (located_row ''1 2'') = Inr (Some 1, Some 2)"
proof -
  have h1: "location_of (located_row ''33.6 73.0'') = Str ''33.6 73.0''
    \<and> example_float ''33.6'' = Some (168 / 5) \<and> example_float ''73.0'' = Some 73"
    by code_simp
  have h2: "\<not> notna (location_of Map.empty)"
    by (simp add: location_of_def field_get_def)
  have h3: "py_strip (py_str (location_of (located_row []))) \<in> {''nan'', []}"
    by (simp add: location_of_def field_get_def located_row_def py_strip_def)
  have h4: "length (split_space (py_str (location_of (located_row ''33.6'')))) < 2"
    by (simp add: location_of_def field_get_def located_row_def)
  have h5: "2 \<le> length (split_space (py_str (location_of (located_row ''33.6 north''))))
    \<and> (example_float (split_space (py_str (location_of (located_row ''33.6 north''))) ! 0) = None
       \<or> example_float (split_space (py_str (location_of (located_row ''33.6 north''))) ! 1) = None)"
    by code_simp
  have h6: "py_strip (py_str (location_of (located_row ''1 2''))) \<notin> {''nan'', []}
    \<and> 2 \<le> length (split_space (py_str (location_of (located_row ''1 2''))))
    \<and> example_float (split_space (py_str (location_of (located_row ''1 2''))) ! 0) = Some 1
    \<and> example_float (split_space (py_str (location_of (located_row ''1 2''))) ! 1) = Some 2"
    by code_simp
  note t1 = session_location_both_or_none [of example_float "located_row ''33.6 73.0''"
        "168 / 5" 73 0 0]
  note t2 = session_location_both_or_none [of example_float Map.empty 0 0 0 0]
  note t3 = session_location_both_or_none [of example_float "located_row []" 0 0 0 0]
  note t4 = session_location_both_or_none [of example_float "located_row ''33.6''" 0 0 0 0]
  note t5 = session_location_both_or_none [of example_float "located_row ''33.6 north''" 0 0 0 0]
  note t6 = session_location_both_or_none [of example_float "located_row ''1 2''" 0 0 1 2]
  have r1: "session_location example_float (located_row ''33.6 73.0'') = Inr (Some (168 / 5), Some 73)"
    by (rule mp [OF t1 [THEN conjunct2, THEN conjunct1] h1])
  have r2: "session_location example_float Map.empty = Inr (None, None)"
    by (rule mp [OF t2 [THEN conjunct2, THEN conjunct2, THEN conjunct1] h2])
  have r3: "session_location example_float (located_row []) = Inr (None, None)"
    by (rule mp [OF t3 [THEN conjunct2, THEN conjunct2, THEN conjunct2, THEN conjunct1] h3])
  have r4: "session_location example_float (located_row ''33.6'') = Inr (None, None)"
    by (rule mp [OF t4 [THEN conjunct2, THEN conjunct2, THEN conjunct2, THEN conjunct2,
            THEN conjunct1] h4])
  have r5: "session_location example_float (located_row ''33.6 north'') = Inr (None, None)"
    by (rule mp [OF t5 [THEN conjunct2, THEN conjunct2, THEN conjunct2, THEN conjunct2,
            THEN conjunct2, THEN conjunct1] h5])
  have r6: "session_location example_float (located_row ''1 2'') = Inr (Some 1, Some 2)"
    by (rule mp [OF t6 [THEN conjunct2, THEN conjunct2, THEN conjunct2, THEN conjunct2,
            THEN conjunct2, THEN conjunct2] h6])
  have h5': "example_float (split_space (py_str (location_of (located_row ''33.6 north''))) ! 1) = None"
    by code_simp
  show ?thesis
    by (intro conjI h1 [THEN conjunct1] h1 [THEN conjunct2, THEN conjunct1]
        h1 [THEN conjunct2, THEN conjunct2] r1 h2 r2 h3 r3 h4 r4 h5 [THEN conjunct1] h5' r5
        h6 [THEN conjunct1] h6 [THEN conjunct2, THEN conjunct1]
        h6 [THEN conjunct2, THEN conjunct2, THEN conjunct1]
        h6 [THEN conjunct2, THEN conjunct2, THEN conjunct2] r6)
qed

text \<open>
  The claim as the specification words it fails for a token count other than two: a
  location of three tokens sets both coordinates.
\<close>

theorem session_location_three_tokens_counterexample:
  "length (split_space ''1 2 3'') = 3
   \<and> session_location example_float (located_row ''1 2 3'') = Inr (Some 1, Some 2)"
  by code_simp

section \<open>Properties of floats and rounding\<close>

lemma round_half_even_error: "\<bar>of_int (round_half_even x) - x\<bar> \<le> 1 / 2"
proof -
  define f where "f = \<lfloor>x\<rfloor>"
  have "of_int f \<le> x" "x < of_int f + 1"
    unfolding f_def by linarith+
  then show ?thesis
    unfolding round_half_even_def Let_def f_def [symmetric]
    by (auto simp: abs_if)
qed

lemma round_rat_0: "round_rat 0 n = 0"
  by (simp add: round_rat_def round_half_even_def)

text \<open>Below 32 a float is within \<open>2\<^sup>-\<^sup>4\<^sup>9\<close> of the exact result.\<close>

lemma binary64_error:
  assumes "\<bar>x\<bar> < 32"
  shows "\<bar>binary64 x - x\<bar> \<le> 2 powi (-49)"
proof (cases "x = 0")
  case True
  then show ?thesis by (simp add: binary64_def)
next
  case False
  define p where "p = fst (quotient_of \<bar>x\<bar>)"
  define q where "q = snd (quotient_of \<bar>x\<bar>)"
  define e0 where "e0 = bitlen p - bitlen q"
  define e where "e = (if 2 powi e0 \<le> \<bar>x\<bar> then e0 else e0 - 1)"
  define u :: rat where "u = 2 powi (e - 52)"
  have pq: "quotient_of \<bar>x\<bar> = (p, q)" by (simp add: p_def q_def)
  then have q0: "q > 0" and xpq: "\<bar>x\<bar> = of_int p / of_int q"
    using quotient_of_denom_pos quotient_of_div by blast+
  have e4: "e \<le> 4"
  proof (cases "2 powi e0 \<le> \<bar>x\<bar>")
    case True
    with assms have "(2::rat) powi e0 < 2 powi 5" by simp
    then have "e0 < 5" by (rule power_int_le_imp_less_exp [rotated]) simp_all
    with True show ?thesis by (simp add: e_def)
  next
    case False
    from assms xpq q0 have "of_int p < (32::rat) * of_int q"
      by (simp add: pos_divide_less_eq)
    then have "p < 32 * q" by (metis of_int_less_iff of_int_mult of_int_numeral)
    also have "q < 2 ^ nat (bitlen q)" using bitlen_bounds [OF q0] by simp
    finally have "p < 2 ^ (5 + nat (bitlen q))" by (simp add: power_add)
    then have "bitlen p \<le> 5 + bitlen q"
      using bitlen_le_iff_power [of p "5 + bitlen q"] bitlen_nonneg [of q]
      by (simp add: nat_add_distrib)
    with False show ?thesis by (simp add: e_def e0_def)
  qed
  have u0: "u > 0" by (simp add: u_def)
  have u48: "u \<le> 2 powi (-48)"
    unfolding u_def using e4 by (intro power_int_increasing) simp_all
  have b: "binary64 x = sgn x * of_int (round_half_even (\<bar>x\<bar> / u)) * u"
    using False by (simp add: binary64_def Let_def u_def e_def e0_def p_def q_def)
  have "\<bar>binary64 x - x\<bar> = \<bar>of_int (round_half_even (\<bar>x\<bar> / u)) * u - \<bar>x\<bar>\<bar>"
    unfolding b using False by (cases "x > 0") (simp_all add: sgn_if abs_if algebra_simps)
  also have "\<dots> = \<bar>(of_int (round_half_even (\<bar>x\<bar> / u)) - \<bar>x\<bar> / u) * u\<bar>"
    using u0 by (simp add: left_diff_distrib)
  also have "\<dots> = \<bar>of_int (round_half_even (\<bar>x\<bar> / u)) - \<bar>x\<bar> / u\<bar> * u"
    using u0 by (simp add: abs_mult)
  also have "\<dots> \<le> 1 / 2 * u"
    using round_half_even_error [of "\<bar>x\<bar> / u"] u0 by (intro mult_right_mono) simp_all
  also have "\<dots> \<le> 1 / 2 * 2 powi (-48)"
    using u48 by simp
  also have "\<dots> = 2 powi (-49)"
    by (simp add: power_int_def power_divide)
  finally show ?thesis .
qed

text \<open>
  A duration of less than a day, divided by 3600 as a float and rounded to one place,
  gives a tenth nearest to the exact number of hours: the error of the division is too
  small to carry the quotient over the middle between two tenths, since the exact
  hours and the middles are multiples of 1/3600.
\<close>

lemma round_hours:
  assumes "\<bar>d\<bar> < 86400"
  shows "\<bar>of_int (round_half_even (binary64 (of_int d / 3600) * 10)) / 10 - of_int d / 3600\<bar>
           \<le> (1 / 20 :: rat)"
proof -
  define x :: rat where "x = of_int d / 3600"
  define n where "n = round_half_even (binary64 x * 10)"
  have "\<bar>x\<bar> < 32"
    using assms by (simp add: x_def abs_divide)
  then have e: "\<bar>binary64 x - x\<bar> \<le> 2 powi (-49)" by (rule binary64_error)
  have r: "\<bar>of_int n - binary64 x * 10\<bar> \<le> 1 / 2"
    unfolding n_def by (rule round_half_even_error)
  have small: "(2::rat) powi (-49) < 1 / 36000"
    by (simp add: power_int_def power_divide)
  have "\<bar>of_int n - x * 10\<bar> \<le> \<bar>of_int n - binary64 x * 10\<bar> + 10 * \<bar>binary64 x - x\<bar>"
    by (simp add: abs_if)
  with e r small have "\<bar>of_int n - x * 10\<bar> < 1 / 2 + 1 / 3600"
    by linarith
  then have "\<bar>of_int (360 * n - d) :: rat\<bar> < 181"
    by (simp add: x_def abs_if field_simps split: if_splits)
  then have "\<bar>360 * n - d\<bar> < 181"
    by (metis of_int_abs of_int_less_iff of_int_numeral)
  then have "\<bar>360 * n - d\<bar> \<le> 180" by simp
  then have "\<bar>of_int (360 * n - d) :: rat\<bar> \<le> 180"
    by (metis of_int_abs of_int_le_iff of_int_numeral)
  then show ?thesis
    unfolding n_def [symmetric] x_def [symmetric]
    by (simp add: x_def abs_if field_simps split: if_splits)
qed

section \<open>Properties of the training time\<close>

lemma hms_here_token_at: "hms_here s \<longleftrightarrow> token_at s 0"
  by (cases s rule: hms_here.cases) (auto simp: token_at_def hms_token_def)

lemma token_at_Suc: "token_at (c # cs) (Suc i) \<longleftrightarrow> token_at cs i"
  by (simp add: token_at_def add.commute)

lemma re_search_hms_None: "re_search_hms s = None \<longleftrightarrow> (\<forall>i. \<not> token_at s i)"
proof (induction s)
  case Nil
  show ?case by (simp add: token_at_def)
next
  case (Cons c cs)
  show ?case
  proof (cases "hms_here (c # cs)")
    case True
    then show ?thesis using hms_here_token_at by auto
  next
    case False
    have "(\<forall>i. \<not> token_at (c # cs) i) \<longleftrightarrow> (\<forall>i. \<not> token_at cs i)"
    proof
      assume "\<forall>i. \<not> token_at (c # cs) i"
      then show "\<forall>i. \<not> token_at cs i" using token_at_Suc by blast
    next
      assume a: "\<forall>i. \<not> token_at cs i"
      show "\<forall>i. \<not> token_at (c # cs) i"
      proof
        fix i show "\<not> token_at (c # cs) i"
          using a False hms_here_token_at [of "c # cs"] token_at_Suc [of c cs]
          by (cases i) auto
      qed
    qed
    with False Cons show ?thesis by simp
  qed
qed

lemma re_search_hms_Some:
  "re_search_hms s = Some tok \<longleftrightarrow>
     (\<exists>i. token_at s i \<and> (\<forall>j<i. \<not> token_at s j) \<and> tok = take 8 (drop i s))"
proof (induction s)
  case Nil
  show ?case by (simp add: token_at_def)
next
  case (Cons c cs)
  show ?case
  proof (cases "hms_here (c # cs)")
    case True
    then have t0: "token_at (c # cs) 0" by (simp add: hms_here_token_at)
    have "(\<exists>i. token_at (c # cs) i \<and> (\<forall>j<i. \<not> token_at (c # cs) j)
              \<and> tok = take 8 (drop i (c # cs))) \<longleftrightarrow> tok = take 8 (c # cs)"
    proof
      assume "\<exists>i. token_at (c # cs) i \<and> (\<forall>j<i. \<not> token_at (c # cs) j)
              \<and> tok = take 8 (drop i (c # cs))"
      then obtain i where i: "\<forall>j<i. \<not> token_at (c # cs) j" "tok = take 8 (drop i (c # cs))"
        by blast
      with t0 have "i = 0" by (cases i) auto
      with i show "tok = take 8 (c # cs)" by simp
    next
      assume "tok = take 8 (c # cs)"
      with t0 show "\<exists>i. token_at (c # cs) i \<and> (\<forall>j<i. \<not> token_at (c # cs) j)
              \<and> tok = take 8 (drop i (c # cs))"
        by (intro exI [of _ 0]) simp
    qed
    with True show ?thesis by auto
  next
    case False
    then have n0: "\<not> token_at (c # cs) 0" by (simp add: hms_here_token_at)
    have "(\<exists>i. token_at (c # cs) i \<and> (\<forall>j<i. \<not> token_at (c # cs) j)
              \<and> tok = take 8 (drop i (c # cs)))
          \<longleftrightarrow> (\<exists>i. token_at cs i \<and> (\<forall>j<i. \<not> token_at cs j) \<and> tok = take 8 (drop i cs))"
      (is "?L \<longleftrightarrow> ?R")
    proof
      assume ?L
      then obtain i where i: "token_at (c # cs) i" "\<forall>j<i. \<not> token_at (c # cs) j"
        "tok = take 8 (drop i (c # cs))" by blast
      with n0 obtain i' where i': "i = Suc i'" by (cases i) auto
      have "\<forall>j<i'. \<not> token_at cs j"
      proof (intro allI impI)
        fix j assume "j < i'"
        then have "Suc j < i" using i' by simp
        with i(2) have "\<not> token_at (c # cs) (Suc j)" by blast
        then show "\<not> token_at cs j" by (simp add: token_at_Suc)
      qed
      with i i' show ?R by (intro exI [of _ i']) (simp add: token_at_Suc)
    next
      assume ?R
      then obtain i where i: "token_at cs i" "\<forall>j<i. \<not> token_at cs j"
        "tok = take 8 (drop i cs)" by blast
      have "\<forall>j<Suc i. \<not> token_at (c # cs) j"
      proof (intro allI impI)
        fix j assume j: "j < Suc i"
        show "\<not> token_at (c # cs) j"
        proof (cases j)
          case 0
          with n0 show ?thesis by simp
        next
          case (Suc j')
          with j i(2) show ?thesis by (simp add: token_at_Suc)
        qed
      qed
      with i show ?L by (intro exI [of _ "Suc i"]) (simp add: token_at_Suc)
    qed
    with False Cons show ?thesis by simp
  qed
qed

lemma avg_training_time_hours_eq:
  "avg_training_time_hours tt first_row =
     Inr (case (parsed_time tt (start_of first_row), parsed_time tt (end_of first_row)) of
            (Some start_dt, Some end_dt) \<Rightarrow>
              Val (binary64 (of_int (seconds_of end_dt - seconds_of start_dt) / 3600))
          | other \<Rightarrow> Val 0)"
  by (auto simp: avg_training_time_hours_def training_time_try_def time_of_def parsed_time_def
      start_of_def end_of_def split: option.splits)

lemma session_summary_avg:
  "session_summary pf tt np recs att k (first_row # others) = Inr s \<Longrightarrow>
   avg_training_time_hours tt first_row = Inr h \<Longrightarrow>
   Avg_Training_Time_Hours s = py_round h 1"
  by (auto simp: session_summary_def split: sum.splits prod.splits)

lemma seconds_difference_bound:
  assumes "h1 < 24" "m1 < 60" "s1 < 60" "h2 < 24" "m2 < 60" "s2 < (60::nat)"
  shows "\<bar>(int h2 * 3600 + int m2 * 60 + int s2) - (int h1 * 3600 + int m1 * 60 + int s1)\<bar>
           < 86400"
  using assms by linarith

text \<open>
  Claim C7. The training time of a session is taken from the start and end values of
  the first row of its group: from each the leftmost token of the form \<^verbatim>\<open>HH:MM:SS\<close> is
  extracted and parsed to a time of day. When both parse, the value is a whole number
  of tenths nearest to the hours from start to end, that is to the seconds of the end
  time minus the seconds of the start time (negative when the end is earlier),
  divided by 3600. When a token is missing or does not parse the value is 0. No error
  leaves the computation.
\<close>

theorem avg_training_time_first_row:
  "(\<exists>h. avg_training_time_hours tt first_row = Inr (Val h))
   \<and> (session_summary pf tt np recs att k (first_row # others) = Inr s
        \<and> parsed_time tt (start_of first_row) = Some (h1, m1, s1)
        \<and> parsed_time tt (end_of first_row) = Some (h2, m2, s2)
        \<and> h1 < 24 \<and> m1 < 60 \<and> s1 < 60 \<and> h2 < 24 \<and> m2 < 60 \<and> s2 < 60
      \<longrightarrow> (\<exists>n. Avg_Training_Time_Hours s = Val (of_int n / 10)
             \<and> \<bar>of_int n / 10
                 - of_int ((int h2 * 3600 + int m2 * 60 + int s2)
                           - (int h1 * 3600 + int m1 * 60 + int s1)) / 3600\<bar>
               \<le> (1 / 20 :: rat)))
   \<and> (session_summary pf tt np recs att k (first_row # others) = Inr s
        \<and> (parsed_time tt (start_of first_row) = None \<or> parsed_time tt (end_of first_row) = None)
      \<longrightarrow> Avg_Training_Time_Hours s = Val 0)
   \<and> (re_search_hms str = Some tok \<longleftrightarrow>
        (\<exists>i. token_at str i \<and> (\<forall>j<i. \<not> token_at str j) \<and> tok = take 8 (drop i str)))
   \<and> (re_search_hms str = None \<longleftrightarrow> (\<forall>i. \<not> token_at str i))"
proof -
  have a: "\<exists>h. avg_training_time_hours tt first_row = Inr (Val h)"
  proof (cases "parsed_time tt (start_of first_row)")
    case None
    then show ?thesis by (simp add: avg_training_time_hours_eq)
  next
    case st: (Some st)
    show ?thesis
    proof (cases "parsed_time tt (end_of first_row)")
      case None
      with st show ?thesis by (simp add: avg_training_time_hours_eq)
    next
      case (Some en)
      with st show ?thesis
        by (intro exI [of _ "binary64 (of_int (seconds_of en - seconds_of st) / 3600)"])
          (simp add: avg_training_time_hours_eq)
    qed
  qed
  have b: "\<exists>n. Avg_Training_Time_Hours s = Val (of_int n / 10)
             \<and> \<bar>of_int n / 10
                 - of_int ((int h2 * 3600 + int m2 * 60 + int s2)
                           - (int h1 * 3600 + int m1 * 60 + int s1)) / 3600\<bar>
               \<le> (1 / 20 :: rat)"
    if s: "session_summary pf tt np recs att k (first_row # others) = Inr s"
      and p: "parsed_time tt (start_of first_row) = Some (h1, m1, s1)"
        "parsed_time tt (end_of first_row) = Some (h2, m2, s2)"
      and v: "h1 < 24" "m1 < 60" "s1 < 60" "h2 < 24" "m2 < 60" "s2 < 60"
  proof -
    define d where "d = (int h2 * 3600 + int m2 * 60 + int s2)
                         - (int h1 * 3600 + int m1 * 60 + int s1)"
    define n where "n = round_half_even (binary64 (of_int d / 3600) * 10)"
    have "\<bar>d\<bar> < 86400"
      unfolding d_def using v by (rule seconds_difference_bound)
    then have near: "\<bar>of_int n / 10 - of_int d / 3600\<bar> \<le> (1 / 20 :: rat)"
      unfolding n_def by (rule round_hours)
    have "Avg_Training_Time_Hours s = Val (of_int n / 10)"
      using session_summary_avg [OF s avg_training_time_hours_eq] p
      by (simp add: round_rat_def n_def d_def)
    with near show ?thesis
      unfolding d_def by blast
  qed
  have c: "Avg_Training_Time_Hours s = Val 0"
    if "session_summary pf tt np recs att k (first_row # others) = Inr s"
      "parsed_time tt (start_of first_row) = None \<or> parsed_time tt (end_of first_row) = None"
    using session_summary_avg [OF that(1) avg_training_time_hours_eq] that(2)
    by (auto simp: round_rat_0 split: option.splits)
  show ?thesis
    using a b c re_search_hms_Some [of str tok] re_search_hms_None [of str] by blast
qed

lemma quality_score_default:
  "first_row ''q_read_write'' = None \<Longrightarrow> first_row ''q_recognize_currency'' = None \<Longrightarrow>
   first_row ''q_simple_math'' = None \<Longrightarrow>
   quality_score np recs first_row
     = Inr (Val (mean_of_three np recs (Num 0 ''0'') (Num 0 ''0'') (Num 0 ''0'')))"
  by (simp add: quality_score_def field_get_def Let_def)

lemma session_summary_defined:
  "quality_score np recs first_row = Inr q \<Longrightarrow>
   \<exists>s. session_summary pf tt np recs att k (first_row # others) = Inr s"
  by (simp add: session_summary_def session_location_eq avg_training_time_hours_eq Let_def
      split: prod.splits)

lemma tenth_unique:
  assumes "\<bar>of_int n / 10 - x\<bar> \<le> (1 / 20 :: rat)" "\<bar>of_int m / 10 - x\<bar> < 1 / 20"
  shows "n = m"
proof -
  from assms have "\<bar>(of_int n :: rat) / 10 - of_int m / 10\<bar> < 1 / 10"
    by linarith
  then have "\<bar>(of_int n :: rat) - of_int m\<bar> < 1"
    by linarith
  then have "\<bar>of_int (n - m) :: rat\<bar> < 1" by simp
  then have "\<bar>n - m\<bar> < 1"
    by (metis of_int_abs of_int_less_iff of_int_1)
  then show ?thesis by simp
qed

theorem avg_training_time_first_row_witness:
  "parsed_time example_time
     (start_of (timed_row ''2024-05-01T10:00:00.000+05:00'' ''2024-05-01T12:30:00.000+05:00''))
     = Some (10, 0, 0)
   \<and> parsed_time example_time
     (end_of (timed_row ''2024-05-01T10:00:00.000+05:00'' ''2024-05-01T12:30:00.000+05:00''))
     = Some (12, 30, 0)
   \<and> map_sum id Avg_Training_Time_Hours
        (session_summary example_float example_time example_arith [] (\<lambda>k. None) (Str ''S1'')
          [timed_row ''2024-05-01T10:00:00.000+05:00'' ''2024-05-01T12:30:00.000+05:00''])
      = Inr (Val (5 / 2))
   \<and> parsed_time example_time (start_of (timed_row ''10:00:00'' ''10:07:00'')) = Some (10, 0, 0)
   \<and> parsed_time example_time (end_of (timed_row ''10:00:00'' ''10:07:00'')) = Some (10, 7, 0)
   \<and> map_sum id Avg_Training_Time_Hours
        (session_summary example_float example_time example_arith [] (\<lambda>k. None) (Str ''S1'')
          [timed_row ''10:00:00'' ''10:07:00''])
      = Inr (Val (1 / 10))
   \<and> map_sum id Avg_Training_Time_Hours
        (session_summary example_float example_time example_arith [] (\<lambda>k. None) (Str ''S1'')
          [timed_row ''12:30:00'' ''10:00:00''])
      = Inr (Val (- (5 / 2)))
   \<and> map_sum id Avg_Training_Time_Hours
        (session_summary example_float example_time example_arith [] (\<lambda>k. None) (Str ''S1'')
          [timed_row ''10:00:00'' ''10:03:00''])
      = Inr (Val (1 / 10))
   \<and> map_sum id Avg_Training_Time_Hours
        (session_summary example_float example_time example_arith [] (\<lambda>k. None) (Str ''S1'')
          [timed_row ''09:00:00'' ''11:33:00''])
      = Inr (Val (5 / 2))
   \<and> parsed_time example_time (start_of (timed_row ''morning'' ''noon'')) = None
   \<and> map_sum id Avg_Training_Time_Hours
        (session_summary example_float example_time example_arith [] (\<lambda>k. None) (Str ''S1'')
          [timed_row ''morning'' ''noon''])
      = Inr (Val 0)
   \<and> re_search_hms ''from 10:00:00 on'' = Some ''10:00:00''
   \<and> token_at ''from 10:00:00 on'' 5"
proof -
  let ?a = "timed_row ''2024-05-01T10:00:00.000+05:00'' ''2024-05-01T12:30:00.000+05:00''"
  let ?b = "timed_row ''morning'' ''noon''"
  let ?c = "timed_row ''10:00:00'' ''10:07:00''"
  let ?S = "session_summary example_float example_time example_arith [] (\<lambda>k. None) (Str ''S1'')"
  have pa: "parsed_time example_time (start_of ?a) = Some (10, 0, 0)"
    "parsed_time example_time (end_of ?a) = Some (12, 30, 0)"
    by code_simp+
  have pc: "parsed_time example_time (start_of ?c) = Some (10, 0, 0)"
    "parsed_time example_time (end_of ?c) = Some (10, 7, 0)"
    by code_simp+
  have pb: "parsed_time example_time (start_of ?b) = None"
    by code_simp
  have ex: "\<And>x y. \<exists>s. ?S (timed_row x y # []) = Inr s"
    by (rule session_summary_defined [OF quality_score_default]) (simp_all add: timed_row_def)
  obtain sa where sa: "?S (?a # []) = Inr sa"
    using ex by blast
  obtain sb where sb: "?S (?b # []) = Inr sb"
    using ex by blast
  obtain sc where sc: "?S (?c # []) = Inr sc"
    using ex by blast
  from avg_training_time_first_row [of example_time ?a example_float example_arith "[]"
        "\<lambda>k. None" "Str ''S1''" "[]" sa 10 0 0 12 30 0 "[]" "[]"] sa pa
  obtain n where n: "Avg_Training_Time_Hours sa = Val (of_int n / 10)"
    "\<bar>of_int n / 10
       - of_int ((int 12 * 3600 + int 30 * 60 + int 0) - (int 10 * 3600 + int 0 * 60 + int 0))
         / 3600\<bar> \<le> (1 / 20 :: rat)"
    by auto
  have "n = 25"
    by (rule tenth_unique [OF n(2)]) simp
  with n(1) have ra: "Avg_Training_Time_Hours sa = Val (5 / 2)" by simp
  from avg_training_time_first_row [of example_time ?c example_float example_arith "[]"
        "\<lambda>k. None" "Str ''S1''" "[]" sc 10 0 0 10 7 0 "[]" "[]"] sc pc
  obtain m where m: "Avg_Training_Time_Hours sc = Val (of_int m / 10)"
    "\<bar>of_int m / 10
       - of_int ((int 10 * 3600 + int 7 * 60 + int 0) - (int 10 * 3600 + int 0 * 60 + int 0))
         / 3600\<bar> \<le> (1 / 20 :: rat)"
    by auto
  have "m = 1"
    by (rule tenth_unique [OF m(2)]) simp
  with m(1) have rc: "Avg_Training_Time_Hours sc = Val (1 / 10)" by simp
  have rb: "Avg_Training_Time_Hours sb = Val 0"
    using avg_training_time_first_row [of example_time ?b example_float example_arith "[]"
        "\<lambda>k. None" "Str ''S1''" "[]" sb 0 0 0 0 0 0 "[]" "[]"] sb pb
    by metis
  have ties: "map_sum id Avg_Training_Time_Hours (?S [timed_row ''12:30:00'' ''10:00:00''])
      = Inr (Val (- (5 / 2)))"
    "map_sum id Avg_Training_Time_Hours (?S [timed_row ''10:00:00'' ''10:03:00''])
      = Inr (Val (1 / 10))"
    "map_sum id Avg_Training_Time_Hours (?S [timed_row ''09:00:00'' ''11:33:00''])
      = Inr (Val (5 / 2))"
    by code_simp+
  have t: "re_search_hms ''from 10:00:00 on'' = Some ''10:00:00''"
    "token_at ''from 10:00:00 on'' 5"
    by code_simp+
  show ?thesis
    using pa pb pc ra rb rc sa sb sc ties t by simp
qed

section \<open>Properties of the quality index\<close>

lemma quality_score_nan:
  "is_numeric (field_get first_row ''q_read_write'' (Num 0 ''0'')) \<Longrightarrow>
   is_numeric (field_get first_row ''q_recognize_currency'' (Num 0 ''0'')) \<Longrightarrow>
   is_numeric (field_get first_row ''q_simple_math'' (Num 0 ''0'')) \<Longrightarrow>
   field_get first_row ''q_read_write'' (Num 0 ''0'') = NaN
     \<or> field_get first_row ''q_recognize_currency'' (Num 0 ''0'') = NaN
     \<or> field_get first_row ''q_simple_math'' (Num 0 ''0'') = NaN \<Longrightarrow>
   quality_score np recs first_row = Inr Nan"
  by (simp add: quality_score_def Let_def)

text \<open>
  Claim C8 at a registration row whose table has the column \<^verbatim>\<open>q_read_write\<close> with an
  empty cell in the row, the other two indicators being 1. Replacing the absent
  indicator by 0, as the claim says, gives a mean of 2/3 and a quality index of 0.67.
  The quality index of the code is not-a-number: the default of \<^verbatim>\<open>row.get\<close> replaces an
  indicator only when the table has no such column, as in the second row, where the
  index is 0.67.
\<close>

theorem quality_index_empty_cell:
  "''q_read_write'' \<in> set (fst indicator_row_empty_cell)
   \<and> snd indicator_row_empty_cell ''q_read_write'' = NaN
   \<and> round_rat ((indicator_or_zero indicator_row_empty_cell ''q_read_write''
                  + indicator_or_zero indicator_row_empty_cell ''q_recognize_currency''
                  + indicator_or_zero indicator_row_empty_cell ''q_simple_math'') / 3) 2
       = 67 / 100
   \<and> map_sum id Quality_Index
        (session_summary example_float example_time example_arith
          [beneficiary_data indicator_row_empty_cell 1] (\<lambda>k. None) (Str ''S1'')
          [beneficiary_data indicator_row_empty_cell 1])
      = Inr Nan
   \<and> ''q_read_write'' \<notin> set (fst indicator_row_no_column)
   \<and> map_sum id Quality_Index
        (session_summary example_float example_time example_arith
          [beneficiary_data indicator_row_no_column 1] (\<lambda>k. None) (Str ''S1'')
          [beneficiary_data indicator_row_no_column 1])
      = Inr (Val (67 / 100))"
  by code_simp

section \<open>Properties of the run\<close>

text \<open>
  Claim C9. When the master file does not exist, the run prints that it was not found
  and does nothing else: no file is written or changed, and in particular the output
  path holds what it held before.
\<close>

theorem missing_master_file:
  "files w master_file_path = None \<Longrightarrow>
   prepare_dashboard_data pf tt np w master_file_path output_json_path
     = w\<lparr>stdout := stdout w @ [NotFound master_file_path]\<rparr>
   \<and> files (prepare_dashboard_data pf tt np w master_file_path output_json_path) = files w
   \<and> files (prepare_dashboard_data pf tt np w master_file_path output_json_path) output_json_path
       = files w output_json_path"
  by (simp add: prepare_dashboard_data_def)

theorem missing_master_file_witness:
  "files world_without_master ''master.xlsx'' = None
   \<and> stdout (prepare_dashboard_data example_float example_time example_arith world_without_master
        ''master.xlsx'' ''dashboard_data.json'') = [NotFound ''master.xlsx'']
   \<and> files (prepare_dashboard_data example_float example_time example_arith world_without_master
        ''master.xlsx'' ''dashboard_data.json'') ''dashboard_data.json''
       = Some (Other ''earlier output'')"
proof -
  have h: "files world_without_master ''master.xlsx'' = None"
    by (simp add: world_without_master_def)
  show ?thesis
    using missing_master_file [OF h, of example_float example_time example_arith
        "''dashboard_data.json''"] h
    by (simp add: world_without_master_def)
qed

lemma dashboard_records_member:
  "dashboard_records pf tt np recs att gs = Inr ss \<Longrightarrow> s \<in> set ss \<Longrightarrow>
   \<exists>(k, g) \<in> set gs. session_summary pf tt np recs att k g = Inr s"
proof (induction gs arbitrary: ss)
  case Nil
  then show ?case by simp
next
  case (Cons kg gs)
  obtain k g where kg: "kg = (k, g)" by (cases kg)
  from Cons.prems(1) kg obtain s0 ss0 where s0:
    "session_summary pf tt np recs att k g = Inr s0"
    "dashboard_records pf tt np recs att gs = Inr ss0"
    "ss = s0 # ss0"
    by (auto split: sum.splits)
  show ?case
  proof (cases "s = s0")
    case True
    with s0 kg show ?thesis by auto
  next
    case False
    with Cons.prems(2) s0 have "s \<in> set ss0" by simp
    from Cons.IH [OF s0(2) this] show ?thesis by auto
  qed
qed

lemma session_summary_counts:
  "session_summary pf tt np recs att k g = Inr s \<Longrightarrow>
   TrainingID s = k \<and> Beneficiary_Count_Actual s = beneficiary_count_day1 g
   \<and> Female_Beneficiaries s = beneficiary_count_day1 g"
  by (auto simp: session_summary_def split: list.splits sum.splits prod.splits)

lemma slot_present_notna:
  "slot_present row i \<Longrightarrow> notna (row_get row (''beneficiary_cnic_'' @ str_nat i) PNone)"
  by (simp add: slot_present_def Let_def)

lemma reshape_row_notna:
  assumes "b \<in> set (reshape_row row)"
  shows "notna (field_get b ''beneficiary_cnic'' PNone)"
proof -
  from assms obtain i where i: "b = beneficiary_data row i" "slot_present row i"
    by (auto simp: reshape_row_eq)
  from slot_present_notna [OF i(2)] show ?thesis
    unfolding i(1) field_get_def beneficiary_data_cnic by simp
qed

lemma long_format_list_notna:
  "b \<in> set (long_format_list df) \<Longrightarrow> notna (field_get b ''beneficiary_cnic'' PNone)"
  by (auto simp: long_format_list_def reshape_row_notna)

lemma beneficiary_count_day1_length:
  "\<forall>b \<in> set g. notna (field_get b ''beneficiary_cnic'' PNone) \<Longrightarrow>
   beneficiary_count_day1 g = length g"
  by (induction g) (simp_all add: beneficiary_count_day1_def)

lemma build_dashboard_Inr:
  "build_dashboard pf tt np df_master = (printed, Inr final_json) \<Longrightarrow>
   dashboard_records pf tt np (long_format_list (select_menu ''day1'' df_master))
     (build_attendance (iterrows (select_menu ''day2'' df_master)))
     (map (\<lambda>k. (k, session_group (long_format_list (select_menu ''day1'' df_master)) k))
        (group_keys (long_format_list (select_menu ''day1'' df_master))))
   = Inr (dashboard_data final_json)"
  by (auto simp: build_dashboard_def groupby_session_id_def Let_def
      split: if_splits sum.splits)

text \<open>
  Claim C10. In every summary of the artifact the number of female beneficiaries equals
  the beneficiary count, and both are the number of long-format records of the session.
\<close>

theorem female_beneficiaries_equal_count:
  "build_dashboard pf tt np df_master = (printed, Inr final_json)
   \<and> s \<in> set (dashboard_data final_json)
   \<longrightarrow> Female_Beneficiaries s = Beneficiary_Count_Actual s
       \<and> Beneficiary_Count_Actual s
           = length (session_group (long_format_list (select_menu ''day1'' df_master))
                       (TrainingID s))"
proof
  assume a: "build_dashboard pf tt np df_master = (printed, Inr final_json)
   \<and> s \<in> set (dashboard_data final_json)"
  let ?recs = "long_format_list (select_menu ''day1'' df_master)"
  from a dashboard_records_member [OF build_dashboard_Inr]
  obtain k where k: "session_summary pf tt np ?recs
      (build_attendance (iterrows (select_menu ''day2'' df_master))) k (session_group ?recs k)
      = Inr s"
    by fastforce
  have "\<forall>b \<in> set (session_group ?recs k). notna (field_get b ''beneficiary_cnic'' PNone)"
    by (auto simp: session_group_def long_format_list_notna)
  then have "beneficiary_count_day1 (session_group ?recs k) = length (session_group ?recs k)"
    by (rule beneficiary_count_day1_length)
  with session_summary_counts [OF k]
  show "Female_Beneficiaries s = Beneficiary_Count_Actual s
       \<and> Beneficiary_Count_Actual s = length (session_group ?recs (TrainingID s))"
    by simp
qed

theorem female_beneficiaries_equal_count_witness:
  "\<exists>printed final_json s.
     build_dashboard example_float example_time example_arith scenario_two_one = (printed, Inr final_json)
     \<and> s \<in> set (dashboard_data final_json)
     \<and> Female_Beneficiaries s = Beneficiary_Count_Actual s
     \<and> Beneficiary_Count_Actual s = 2"
proof -
  have e: "map_sum id (map Beneficiary_Count_Actual \<circ> dashboard_data)
             (snd (build_dashboard example_float example_time example_arith scenario_two_one)) = Inr [2]"
    by code_simp
  obtain printed r where pr:
    "build_dashboard example_float example_time example_arith scenario_two_one = (printed, r)"
    by (cases "build_dashboard example_float example_time example_arith scenario_two_one")
  with e obtain final_json where fj: "r = Inr final_json"
    "map Beneficiary_Count_Actual (dashboard_data final_json) = [2]"
    by (cases r) auto
  then obtain s where s: "dashboard_data final_json = [s]" "Beneficiary_Count_Actual s = 2"
    by auto
  have m: "s \<in> set (dashboard_data final_json)"
    using s by simp
  from female_beneficiaries_equal_count [of example_float example_time example_arith
      scenario_two_one printed final_json s] pr fj(1) m
  have "Female_Beneficiaries s = Beneficiary_Count_Actual s"
    by blast
  with pr fj(1) m s(2) show ?thesis
    by blast
qed

section \<open>The retention rate\<close>

text \<open>
  Claim C1 at the end-to-end scenario of the specification: two registration rows of
  session S1 with the identifiers \<^verbatim>\<open>123-45\<close> and \<^verbatim>\<open>12345\<close>, and one attendance row of S1
  listing \<^verbatim>\<open>12345 99999\<close>. The run gives one summary, with beneficiary count 2 and
  retention 100: the numerator is the size of the attendance set, 2, and not the
  number of registered identifiers found in it, 1, which would give the 50 of the
  claim.
\<close>

theorem retention_rate_end_to_end:
  "map_sum id (map (\<lambda>s. (TrainingID s, Beneficiary_Count_Actual s, Retention_Rate_Pct s))
                \<circ> dashboard_data)
     (snd (build_dashboard example_float example_time example_arith scenario_two_one))
   = Inr [(Str ''S1'', 2, Val 100)]
   \<and> round_rat (1 / 2 * 100) 2 = 50"
  by code_simp

text \<open>
  Claim C2 at a session with one registration and an attendance row listing three
  identifiers: the beneficiary count is 1 and the retention is 300, above 100.
\<close>

theorem retention_rate_above_hundred:
  "map_sum id (map (\<lambda>s. (TrainingID s, Beneficiary_Count_Actual s, Retention_Rate_Pct s))
                \<circ> dashboard_data)
     (snd (build_dashboard example_float example_time example_arith scenario_one_three))
   = Inr [(Str ''S1'', 1, Val 300)]
   \<and> (100 :: rat) < 300"
  by code_simp

end
